theory Spec2Isabelle
  imports Main "HOL-Library.AList" "HOL-Library.Sublist"
begin

section \<open>The localization asset processor\<close>

text \<open>
  A shallow embedding of \<^verbatim>\<open>webpack/localization-plugin/src/AssetProcessor.ts\<close>.

  Conventions of the model.
  \<^item> A JavaScript string is a \<^typ>\<open>string\<close>: one \<^typ>\<open>char\<close> stands for one code unit, and
    \<^verbatim>\<open>.length\<close> is \<^const>\<open>length\<close>. Nothing below depends on the width of a code unit.
  \<^item> A \<^verbatim>\<open>number\<close> that holds a size is an \<^typ>\<open>int\<close>.
  \<^item> An object used as a dictionary (\<^verbatim>\<open>ILocaleElementMap\<close>) is an association list of
    its own properties, read with \<^const>\<open>map_of\<close>; a missing key reads as \<^verbatim>\<open>undefined\<close>,
    that is \<^const>\<open>None\<close>. Keys that name inherited members of the object prototype are outside
    the model.
  \<^item> A \<^verbatim>\<open>Set<string>\<close> that is only iterated is the list of its members in insertion
    order; a \<^verbatim>\<open>Map\<close> is an association list updated with \<^const>\<open>AList.update\<close>, which
    keeps the position of a key that is already there, as \<^verbatim>\<open>Map.prototype.set\<close> does.
  \<^item> A thrown exception is the left summand of a sum type, \<^verbatim>\<open>error + 'a\<close>.
\<close>

datatype error =
    UnexpectedLabel string  \<comment> \<open>\<^verbatim>\<open>throw new Error(`Unexpected label ${elementLabel}`)\<close>\<close>
  | MissingLocaleName       \<comment> \<open>\<^verbatim>\<open>throw new Error('Missing locale name.')\<close>\<close>
  | Unsupported             \<comment> \<open>\<^verbatim>\<open>throw new Error('unsupported')\<close>\<close>
  | TypeError               \<comment> \<open>a method call on \<^verbatim>\<open>undefined\<close>\<close>

type_synonym ILocaleElementMap = "(string \<times> string) list"

datatype IReconstructionElement =
    Static (staticString: string)
  | Localized (values': ILocaleElementMap) (size': int) (stringName: string) (locFilePath: string)
  | Dynamic (valueFn: "string \<Rightarrow> string option \<Rightarrow> error + string") (size': int)
      (token: "string option")

record IReconstructedString =
  source :: string
  size_r :: int

record ILocalizedReconstructionResult =
  l_result :: "(string \<times> IReconstructedString) list"
  l_issues :: "string list"

record INonLocalizedReconstructionResult =
  n_result :: IReconstructedString
  n_issues :: "string list"

subsection \<open>String helpers\<close>

definition quotemark :: char where
  "quotemark = CHR 0x22"

definition apostrophe :: char where
  "apostrophe = CHR 0x27"

definition backslash :: char where
  "backslash = CHR 0x5C"

text \<open>\<^verbatim>\<open>s.replace(/c/g, r)\<close> for a pattern that is one literal character and a
  replacement text without \<^verbatim>\<open>$\<close>.\<close>

fun replaceAll :: "char \<Rightarrow> string \<Rightarrow> string \<Rightarrow> string" where
  "replaceAll c r [] = []"
| "replaceAll c r (x # xs) = (if x = c then r @ replaceAll c r xs else x # replaceAll c r xs)"

definition escapedQuotemark :: string where
  "escapedQuotemark = backslash # ''u0022''"

definition escapedApostrophe :: string where
  "escapedApostrophe = backslash # ''u0027''"

text \<open>The two replacements of lines 233 to 237, in the order of the source.\<close>

definition escapeQuotes :: "string \<Rightarrow> string" where
  "escapeQuotes newValue =
     replaceAll apostrophe escapedApostrophe (replaceAll quotemark escapedQuotemark newValue)"

text \<open>JavaScript truthiness of a \<^verbatim>\<open>string | undefined\<close>: \<^verbatim>\<open>undefined\<close> and the empty
  string are falsy.\<close>

fun truthy :: "string option \<Rightarrow> bool" where
  "truthy None = False"
| "truthy (Some s) = (s \<noteq> [])"

definition missingStringSentinel :: string where
  "missingStringSentinel = ''-- MISSING STRING --''"

definition notExpectedSentinel :: string where
  "notExpectedSentinel = ''-- NOT EXPECTED TO BE LOCALIZED --''"

definition missingIssue :: "string \<Rightarrow> string \<Rightarrow> string \<Rightarrow> string" where
  "missingIssue name path locale =
     ''The string '' @ [quotemark] @ name @ [quotemark] @ '' in '' @ [quotemark] @ path
       @ [quotemark] @ '' is missing in the locale '' @ locale"

definition notExpectedIssue :: "string \<Rightarrow> string \<Rightarrow> string" where
  "notExpectedIssue name path =
     ''The string '' @ [quotemark] @ name @ [quotemark] @ '' in '' @ [quotemark] @ path
       @ [quotemark] @ '' appeared in an asset that is not expected to contain localized resources.''"

subsection \<open>The reconstructors\<close>

text \<open>The variables of one pass over the reconstruction series: the array
  \<^verbatim>\<open>reconstruction\<close>, the counter \<^verbatim>\<open>sizeDiff\<close> and the array \<^verbatim>\<open>issues\<close>.\<close>

record ReconstructState =
  reconstruction :: "string list"
  sizeDiff :: int
  issuesAcc :: "string list"

text \<open>The body of the \<^verbatim>\<open>switch\<close> of \<^verbatim>\<open>_reconstructLocalized\<close> for one element.\<close>

fun reconstructLocalizedElement ::
  "bool \<Rightarrow> string \<Rightarrow> string \<Rightarrow> ReconstructState \<Rightarrow> IReconstructionElement
    \<Rightarrow> error + ReconstructState" where
  "reconstructLocalizedElement fillMissing defaultLocale locale st (Static s) =
     Inr (st\<lparr>reconstruction := reconstruction st @ [s]\<rparr>)"
| "reconstructLocalizedElement fillMissing defaultLocale locale st (Localized vals sz name path) =
     (let (newValue, issues') =
        (if truthy (map_of vals locale) then (map_of vals locale, issuesAcc st)
         else if fillMissing then (map_of vals defaultLocale, issuesAcc st)
         else (Some missingStringSentinel, issuesAcc st @ [missingIssue name path locale]))
      in case newValue of
           None \<Rightarrow> Inl TypeError
         | Some v \<Rightarrow>
             Inr \<lparr>reconstruction = reconstruction st @ [escapeQuotes v],
                  sizeDiff = sizeDiff st + (int (length (escapeQuotes v)) - sz),
                  issuesAcc = issues'\<rparr>)"
| "reconstructLocalizedElement fillMissing defaultLocale locale st (Dynamic fn sz tok) =
     (case fn locale tok of
        Inl e \<Rightarrow> Inl e
      | Inr newValue \<Rightarrow>
          Inr (st\<lparr>reconstruction := reconstruction st @ [newValue],
                  sizeDiff := sizeDiff st + (int (length newValue) - sz)\<rparr>))"

text \<open>\<^verbatim>\<open>for (const element of reconstructionSeries)\<close>; a throw leaves the loop.\<close>

fun reconstructLocalizedElements ::
  "bool \<Rightarrow> string \<Rightarrow> string \<Rightarrow> ReconstructState \<Rightarrow> IReconstructionElement list
    \<Rightarrow> error + ReconstructState" where
  "reconstructLocalizedElements fillMissing defaultLocale locale st [] = Inr st"
| "reconstructLocalizedElements fillMissing defaultLocale locale st (element # rest) =
     (case reconstructLocalizedElement fillMissing defaultLocale locale st element of
        Inl e \<Rightarrow> Inl e
      | Inr st' \<Rightarrow> reconstructLocalizedElements fillMissing defaultLocale locale st' rest)"

text \<open>\<^verbatim>\<open>for (const locale of locales)\<close>: \<^verbatim>\<open>reconstruction\<close> and \<^verbatim>\<open>sizeDiff\<close> start
  afresh for each locale, \<^verbatim>\<open>issues\<close> and \<^verbatim>\<open>localizedResults\<close> are shared.\<close>

fun reconstructLocalizedLocales ::
  "IReconstructionElement list \<Rightarrow> bool \<Rightarrow> string \<Rightarrow> int \<Rightarrow> ILocalizedReconstructionResult
    \<Rightarrow> string list \<Rightarrow> error + ILocalizedReconstructionResult" where
  "reconstructLocalizedLocales series fillMissing defaultLocale initialSize acc [] = Inr acc"
| "reconstructLocalizedLocales series fillMissing defaultLocale initialSize acc (locale # rest) =
     (case reconstructLocalizedElements fillMissing defaultLocale locale
             \<lparr>reconstruction = [], sizeDiff = 0, issuesAcc = l_issues acc\<rparr> series of
        Inl e \<Rightarrow> Inl e
      | Inr st \<Rightarrow>
          reconstructLocalizedLocales series fillMissing defaultLocale initialSize
            \<lparr>l_result = AList.update locale
                 \<lparr>source = concat (reconstruction st), size_r = initialSize + sizeDiff st\<rparr>
                 (l_result acc),
             l_issues = issuesAcc st\<rparr>
            rest)"

definition reconstructLocalized ::
  "IReconstructionElement list \<Rightarrow> string list \<Rightarrow> bool \<Rightarrow> string \<Rightarrow> int
    \<Rightarrow> error + ILocalizedReconstructionResult" where
  "reconstructLocalized reconstructionSeries locales fillMissingTranslationStrings defaultLocale
     initialSize =
     reconstructLocalizedLocales reconstructionSeries fillMissingTranslationStrings defaultLocale
       initialSize \<lparr>l_result = [], l_issues = []\<rparr> locales"

text \<open>The body of the \<^verbatim>\<open>switch\<close> of \<^verbatim>\<open>_reconstructNonLocalized\<close> for one element.\<close>

fun reconstructNonLocalizedElement ::
  "string \<Rightarrow> ReconstructState \<Rightarrow> IReconstructionElement \<Rightarrow> error + ReconstructState" where
  "reconstructNonLocalizedElement noStringsLocaleName st (Static s) =
     Inr (st\<lparr>reconstruction := reconstruction st @ [s]\<rparr>)"
| "reconstructNonLocalizedElement noStringsLocaleName st (Localized vals sz name path) =
     Inr \<lparr>reconstruction = reconstruction st @ [notExpectedSentinel],
          sizeDiff = sizeDiff st + (int (length notExpectedSentinel) - sz),
          issuesAcc = issuesAcc st @ [notExpectedIssue name path]\<rparr>"
| "reconstructNonLocalizedElement noStringsLocaleName st (Dynamic fn sz tok) =
     (case fn noStringsLocaleName tok of
        Inl e \<Rightarrow> Inl e
      | Inr newValue \<Rightarrow>
          Inr (st\<lparr>reconstruction := reconstruction st @ [newValue],
                  sizeDiff := sizeDiff st + (int (length newValue) - sz)\<rparr>))"

fun reconstructNonLocalizedElements ::
  "string \<Rightarrow> ReconstructState \<Rightarrow> IReconstructionElement list \<Rightarrow> error + ReconstructState" where
  "reconstructNonLocalizedElements noStringsLocaleName st [] = Inr st"
| "reconstructNonLocalizedElements noStringsLocaleName st (element # rest) =
     (case reconstructNonLocalizedElement noStringsLocaleName st element of
        Inl e \<Rightarrow> Inl e
      | Inr st' \<Rightarrow> reconstructNonLocalizedElements noStringsLocaleName st' rest)"

definition reconstructNonLocalized ::
  "IReconstructionElement list \<Rightarrow> int \<Rightarrow> string
    \<Rightarrow> error + INonLocalizedReconstructionResult" where
  "reconstructNonLocalized reconstructionSeries initialSize noStringsLocaleName =
     (case reconstructNonLocalizedElements noStringsLocaleName
             \<lparr>reconstruction = [], sizeDiff = 0, issuesAcc = []\<rparr> reconstructionSeries of
        Inl e \<Rightarrow> Inl e
      | Inr st \<Rightarrow>
          Inr \<lparr>n_result = \<lparr>source = concat (reconstruction st),
                            size_r = initialSize + sizeDiff st\<rparr>,
               n_issues = issuesAcc st\<rparr>)"

subsection \<open>The JSONP resolver\<close>

text \<open>
  \<^verbatim>\<open>JSON.stringify\<close> is a built-in of the language. Its three uses in
  \<^verbatim>\<open>_getJsonpFunction\<close> are modelled after the language standard: on a string
  (\<^verbatim>\<open>QuoteJSONString\<close>), on an array of strings, and on the object \<^verbatim>\<open>chunkMapping\<close>, whose
  values are the numbers 0 and 1.
\<close>

definition hexDigit :: "nat \<Rightarrow> char" where
  "hexDigit n = ''0123456789abcdef'' ! (n mod 16)"

definition quoteJSONChar :: "char \<Rightarrow> string" where
  "quoteJSONChar c =
     (if c = quotemark \<or> c = backslash then [backslash, c]
      else if c = CHR 0x08 then [backslash, CHR ''b'']
      else if c = CHR 0x0C then [backslash, CHR ''f'']
      else if c = CHR 0x0A then [backslash, CHR ''n'']
      else if c = CHR 0x0D then [backslash, CHR ''r'']
      else if c = CHR 0x09 then [backslash, CHR ''t'']
      else if (of_char c :: nat) < 0x20
        then backslash # ''u00'' @ [hexDigit (of_char c div 16), hexDigit (of_char c)]
      else [c])"

definition quoteJSONString :: "string \<Rightarrow> string" where
  "quoteJSONString s = quotemark # concat (map quoteJSONChar s) @ [quotemark]"

fun joinWith :: "string \<Rightarrow> string list \<Rightarrow> string" where
  "joinWith sep [] = []"
| "joinWith sep [x] = x"
| "joinWith sep (x # y # ys) = x @ sep @ joinWith sep (y # ys)"

definition stringifyStringArray :: "string list \<Rightarrow> string" where
  "stringifyStringArray xs = ''['' @ joinWith '','' (map quoteJSONString xs) @ '']''"

definition isDigit :: "char \<Rightarrow> bool" where
  "isDigit c \<longleftrightarrow> c \<in> set ''0123456789''"

definition digitValue :: "char \<Rightarrow> int" where
  "digitValue c = of_char c - 48"

definition decimalValue :: "string \<Rightarrow> int" where
  "decimalValue ds = foldl (\<lambda>n c. 10 * n + digitValue c) 0 ds"

text \<open>An array index is the canonical decimal form of an integer from 0 to \<open>2\<^sup>3\<^sup>2 - 2\<close>. The own
  properties of an object are enumerated with the array indices first, in ascending order, and
  the other keys after them, in the order of their creation. The object is the association
  list of its properties in the order of their creation, each key once.\<close>

definition isArrayIndex :: "string \<Rightarrow> bool" where
  "isArrayIndex k \<longleftrightarrow>
     k \<noteq> [] \<and> list_all isDigit k \<and> (hd k = CHR ''0'' \<longrightarrow> length k = 1) \<and>
     length k \<le> 10 \<and> decimalValue k \<le> 4294967294"

definition ownProperties :: "(string \<times> nat) list \<Rightarrow> (string \<times> nat) list" where
  "ownProperties obj =
     sort_key (\<lambda>p. decimalValue (fst p)) (filter (\<lambda>p. isArrayIndex (fst p)) obj)
       @ filter (\<lambda>p. \<not> isArrayIndex (fst p)) obj"

definition stringifyBit :: "nat \<Rightarrow> string" where
  "stringifyBit v = (if v = 0 then ''0'' else ''1'')"

definition stringifyChunkMapping :: "(string \<times> nat) list \<Rightarrow> string" where
  "stringifyChunkMapping obj =
     ''{'' @ joinWith '',''
              (map (\<lambda>p. quoteJSONString (fst p) @ '':'' @ stringifyBit (snd p))
                 (ownProperties obj))
       @ ''}''"

text \<open>An asynchronous chunk, as far as the resolver reads it: its \<^verbatim>\<open>id\<close> and whether
  \<^verbatim>\<open>EntityMarker.getMark\<close> is truthy on it.\<close>

record Chunk =
  id' :: string
  mark :: bool

text \<open>\<^verbatim>\<open>Set.prototype.add\<close> on a set kept in insertion order.\<close>

definition setAdd :: "string \<Rightarrow> string list \<Rightarrow> string list" where
  "setAdd x xs = (if x \<in> set xs then xs else xs @ [x])"

fun partitionChunkIds ::
  "Chunk list \<Rightarrow> string list \<times> string list \<Rightarrow> string list \<times> string list" where
  "partitionChunkIds [] (idsWithStrings, idsWithoutStrings) = (idsWithStrings, idsWithoutStrings)"
| "partitionChunkIds (asyncChunk # rest) (idsWithStrings, idsWithoutStrings) =
     (if mark asyncChunk
      then partitionChunkIds rest (setAdd (id' asyncChunk) idsWithStrings, idsWithoutStrings)
      else partitionChunkIds rest (idsWithStrings, setAdd (id' asyncChunk) idsWithoutStrings))"

text \<open>\<^verbatim>\<open>for (const id of ids) { chunkMapping[id] = v; }\<close>\<close>

fun assignAll :: "nat \<Rightarrow> string list \<Rightarrow> (string \<times> nat) list \<Rightarrow> (string \<times> nat) list" where
  "assignAll v [] chunkMapping = chunkMapping"
| "assignAll v (k # ks) chunkMapping = assignAll v ks (AList.update k v chunkMapping)"

definition buildChunkMapping :: "string list \<Rightarrow> string list \<Rightarrow> (string \<times> nat) list" where
  "buildChunkMapping idsWithStrings idsWithoutStrings =
     assignAll 1 idsWithoutStrings (assignAll 0 idsWithStrings [])"

text \<open>A template literal prints a missing token as the text \<^verbatim>\<open>undefined\<close>.\<close>

fun templateText :: "string option \<Rightarrow> string" where
  "templateText None = ''undefined''"
| "templateText (Some t) = t"

definition mixedResolver ::
  "(string \<times> nat) list \<Rightarrow> string \<Rightarrow> string \<Rightarrow> string option \<Rightarrow> error + string" where
  "mixedResolver chunkMapping noStringsLocaleName locale chunkIdToken =
     (if locale = [] then Inl MissingLocaleName
      else Inr (''('' @ stringifyStringArray [locale, noStringsLocaleName] @ '')[''
                  @ stringifyChunkMapping chunkMapping @ ''['' @ templateText chunkIdToken
                  @ '']]''))"

text \<open>\<^verbatim>\<open>_getJsonpFunction\<close>; the argument \<open>asyncChunks\<close> is the result of
  \<^verbatim>\<open>chunk.getAllAsyncChunks()\<close> in iteration order.\<close>

definition getJsonpFunction ::
  "Chunk list \<Rightarrow> string \<Rightarrow> string \<Rightarrow> string option \<Rightarrow> error + string" where
  "getJsonpFunction asyncChunks noStringsLocaleName =
     (let (idsWithStrings, idsWithoutStrings) = partitionChunkIds asyncChunks ([], []) in
      if length idsWithStrings = 0
        then (\<lambda>locale chunkIdToken. Inr (quoteJSONString noStringsLocaleName))
      else if length idsWithoutStrings = 0
        then (\<lambda>locale chunkIdToken. Inr (quoteJSONString locale))
      else mixedResolver (buildChunkMapping idsWithStrings idsWithoutStrings) noStringsLocaleName)"

subsection \<open>The placeholder grammar\<close>

definition STRING_PLACEHOLDER_PREFIX :: string where
  "STRING_PLACEHOLDER_PREFIX = ''_LOCALIZED_STRING_f12dy0i7_n4bo_dqwj_39gf_sasqehjmihz9''"

definition STRING_PLACEHOLDER_LABEL :: string where
  "STRING_PLACEHOLDER_LABEL = ''A''"

definition LOCALE_NAME_PLACEHOLDER_LABEL :: string where
  "LOCALE_NAME_PLACEHOLDER_LABEL = ''B''"

definition JSONP_PLACEHOLDER_LABEL :: string where
  "JSONP_PLACEHOLDER_LABEL = ''C''"

text \<open>
  \<^verbatim>\<open>PLACEHOLDER_REGEX\<close> is the prefix followed by \<^verbatim>\<open>_([A-C])(\+[^+]+\+)?_(\d+)\<close>, with the
  flag \<^verbatim>\<open>g\<close>. The result of a match: its index, the matched text and the three groups; the
  second group is \<^verbatim>\<open>undefined\<close> when the optional part matched nothing.
\<close>

record RegExpExecArray =
  m_index :: nat
  m_placeholder :: string
  m_elementLabel :: string
  m_token :: "string option"
  m_placeholderSerialNumber :: string

fun stripPrefix :: "string \<Rightarrow> string \<Rightarrow> string option" where
  "stripPrefix [] s = Some s"
| "stripPrefix (p # ps) [] = None"
| "stripPrefix (p # ps) (c # cs) = (if p = c then stripPrefix ps cs else None)"

text \<open>The group \<^verbatim>\<open>\+[^+]+\+\<close> at the head of a text: the group and the text after it. The
  class \<^verbatim>\<open>[^+]\<close> never matches a plus sign, so the greedy run ends at the first one.\<close>

definition matchTokenGroup :: "string \<Rightarrow> (string \<times> string) option" where
  "matchTokenGroup s =
     (case s of
        [] \<Rightarrow> None
      | c # r \<Rightarrow>
          if c \<noteq> CHR ''+'' then None
          else let body = takeWhile (\<lambda>x. x \<noteq> CHR ''+'') r;
                   after = dropWhile (\<lambda>x. x \<noteq> CHR ''+'') r
               in if body = [] then None
                  else (case after of
                          [] \<Rightarrow> None
                        | p # rest \<Rightarrow> Some (c # body @ [p], rest)))"

text \<open>The part \<^verbatim>\<open>_(\d+)\<close> at the head of a text: the digits, taken greedily.\<close>

definition matchSerial :: "string \<Rightarrow> string option" where
  "matchSerial s =
     (case s of
        [] \<Rightarrow> None
      | c # r \<Rightarrow>
          if c \<noteq> CHR ''_'' then None
          else let ds = takeWhile isDigit r in if ds = [] then None else Some ds)"

text \<open>A match of the whole expression that starts at the head of \<open>s\<close>, which is the source
  from index \<open>i\<close> on. The alternative with the optional group is tried first, the one without
  it second, as backtracking does.\<close>

definition matchAt :: "nat \<Rightarrow> string \<Rightarrow> RegExpExecArray option" where
  "matchAt i s =
     (case stripPrefix (STRING_PLACEHOLDER_PREFIX @ ''_'') s of
        None \<Rightarrow> None
      | Some r1 \<Rightarrow>
          (case r1 of
             [] \<Rightarrow> None
           | lab # r2 \<Rightarrow>
               if lab \<notin> set ''ABC'' then None
               else
                 (case (case matchTokenGroup r2 of
                          None \<Rightarrow> None
                        | Some (tok, r3) \<Rightarrow> map_option (Pair tok) (matchSerial r3)) of
                    Some (tok, ds) \<Rightarrow>
                      Some \<lparr>m_index = i,
                            m_placeholder = STRING_PLACEHOLDER_PREFIX @ ''_'' @ [lab] @ tok @ ''_'' @ ds,
                            m_elementLabel = [lab],
                            m_token = Some tok,
                            m_placeholderSerialNumber = ds\<rparr>
                  | None \<Rightarrow>
                      (case matchSerial r2 of
                         None \<Rightarrow> None
                       | Some ds \<Rightarrow>
                           Some \<lparr>m_index = i,
                                 m_placeholder = STRING_PLACEHOLDER_PREFIX @ ''_'' @ [lab] @ ''_'' @ ds,
                                 m_elementLabel = [lab],
                                 m_token = None,
                                 m_placeholderSerialNumber = ds\<rparr>))))"

text \<open>The leftmost match in \<open>s\<close>, the source from index \<open>i\<close> on.\<close>

fun findMatch :: "nat \<Rightarrow> string \<Rightarrow> RegExpExecArray option" where
  "findMatch i [] = None"
| "findMatch i (c # cs) =
     (case matchAt i (c # cs) of
        Some m \<Rightarrow> Some m
      | None \<Rightarrow> findMatch (Suc i) cs)"

text \<open>\<^verbatim>\<open>PLACEHOLDER_REGEX.exec(source)\<close> when the expression's \<^verbatim>\<open>lastIndex\<close> is
  \<open>reLastIndex\<close>. A match sets \<^verbatim>\<open>lastIndex\<close> to its end, a failure sets it to 0.\<close>

definition exec :: "nat \<Rightarrow> string \<Rightarrow> RegExpExecArray option" where
  "exec reLastIndex src =
     (if length src < reLastIndex then None
      else findMatch reLastIndex (drop reLastIndex src))"

subsection \<open>The sequence parser\<close>

text \<open>What \<^verbatim>\<open>plugin.getDataForSerialNumber\<close> returns.\<close>

record IStringSerialNumberData =
  sd_values :: ILocaleElementMap
  sd_locFilePath :: string
  sd_stringName :: string

record IParseResult =
  issues :: "string list"
  reconstructionSeries :: "IReconstructionElement list"

text \<open>\<^verbatim>\<open>s.substring(a, b)\<close>: the two indices are swapped when \<open>b < a\<close>.\<close>

definition substring :: "string \<Rightarrow> nat \<Rightarrow> nat \<Rightarrow> string" where
  "substring s a b = take (max a b - min a b) (drop (min a b) s)"

text \<open>\<^verbatim>\<open>(locale: string) => locale\<close>\<close>

definition localeNameFn :: "string \<Rightarrow> string option \<Rightarrow> error + string" where
  "localeNameFn locale chunkIdToken = Inr locale"

text \<open>\<^verbatim>\<open>() => { throw new Error('unsupported'); }\<close>, the resolver given for file names.\<close>

definition unsupportedFn :: "string \<Rightarrow> string option \<Rightarrow> error + string" where
  "unsupportedFn locale chunkIdToken = Inl Unsupported"

text \<open>The variables of the scanning loop: \<^verbatim>\<open>issues\<close>, \<^verbatim>\<open>reconstructionSeries\<close>, the local
  \<^verbatim>\<open>lastIndex\<close>, and the \<^verbatim>\<open>lastIndex\<close> of the module-level expression.\<close>

record ParseState =
  p_issues :: "string list"
  p_series :: "IReconstructionElement list"
  lastIndex :: nat
  regexLastIndex :: nat

text \<open>The body of the \<^verbatim>\<open>while\<close> loop for one match.\<close>

definition parseMatch ::
  "(string \<Rightarrow> IStringSerialNumberData option) \<Rightarrow> (string \<Rightarrow> string option \<Rightarrow> error + string)
    \<Rightarrow> string \<Rightarrow> ParseState \<Rightarrow> RegExpExecArray \<Rightarrow> error + ParseState" where
  "parseMatch getDataForSerialNumber jsonpFunction src st m =
     (let staticElement = Static (substring src (lastIndex st) (m_index m));
          placeholder = m_placeholder m;
          next = m_index m + length placeholder
      in if m_elementLabel m = STRING_PLACEHOLDER_LABEL then
           (case getDataForSerialNumber (m_placeholderSerialNumber m) of
              None \<Rightarrow>
                Inr \<lparr>p_issues = p_issues st @ [''Missing placeholder '' @ placeholder],
                     p_series = p_series st @ [staticElement, Static placeholder],
                     lastIndex = next, regexLastIndex = next\<rparr>
            | Some stringData \<Rightarrow>
                Inr \<lparr>p_issues = p_issues st,
                     p_series = p_series st @
                       [staticElement,
                        Localized (sd_values stringData) (int (length placeholder))
                          (sd_stringName stringData) (sd_locFilePath stringData)],
                     lastIndex = next, regexLastIndex = next\<rparr>)
         else if m_elementLabel m = LOCALE_NAME_PLACEHOLDER_LABEL then
           Inr \<lparr>p_issues = p_issues st,
                p_series = p_series st @
                  [staticElement, Dynamic localeNameFn (int (length placeholder)) None],
                lastIndex = next, regexLastIndex = next\<rparr>
         else if m_elementLabel m = JSONP_PLACEHOLDER_LABEL then
           (case m_token m of
              None \<Rightarrow> Inl TypeError
            | Some tok \<Rightarrow>
                Inr \<lparr>p_issues = p_issues st,
                     p_series = p_series st @
                       [staticElement,
                        Dynamic jsonpFunction (int (length placeholder))
                          (Some (substring tok 1 (length tok - 1)))],
                     lastIndex = next, regexLastIndex = next\<rparr>)
         else Inl (UnexpectedLabel (m_elementLabel m)))"

function parseLoop ::
  "(string \<Rightarrow> IStringSerialNumberData option) \<Rightarrow> (string \<Rightarrow> string option \<Rightarrow> error + string)
    \<Rightarrow> string \<Rightarrow> ParseState \<Rightarrow> error + ParseState" where
  "parseLoop getDataForSerialNumber jsonpFunction src st =
     (case exec (regexLastIndex st) src of
        None \<Rightarrow> Inr (st\<lparr>regexLastIndex := 0\<rparr>)
      | Some m \<Rightarrow>
          (case parseMatch getDataForSerialNumber jsonpFunction src st m of
             Inl e \<Rightarrow> Inl e
           | Inr st' \<Rightarrow> parseLoop getDataForSerialNumber jsonpFunction src st'))"
  by pat_completeness auto

text \<open>\<^verbatim>\<open>_parseStringToReconstructionSequence\<close>. The first argument is the
  \<^verbatim>\<open>lastIndex\<close> that \<^verbatim>\<open>PLACEHOLDER_REGEX\<close> holds when the function is entered: the
  expression is shared by all calls. It is 0 at first and after every call that returned.\<close>

definition parseStringToReconstructionSequence ::
  "nat \<Rightarrow> (string \<Rightarrow> IStringSerialNumberData option) \<Rightarrow> string
    \<Rightarrow> (string \<Rightarrow> string option \<Rightarrow> error + string) \<Rightarrow> error + IParseResult" where
  "parseStringToReconstructionSequence reLastIndex getDataForSerialNumber src jsonpFunction =
     (case parseLoop getDataForSerialNumber jsonpFunction src
             \<lparr>p_issues = [], p_series = [], lastIndex = 0, regexLastIndex = reLastIndex\<rparr> of
        Inl e \<Rightarrow> Inl e
      | Inr st \<Rightarrow>
          Inr \<lparr>issues = p_issues st,
               reconstructionSeries = p_series st @ [Static (drop (lastIndex st) src)]\<rparr>)"

subsection \<open>Notions of the specification\<close>

text \<open>The escaped Unicode form of a character: a backslash and \<^verbatim>\<open>u0022\<close> for the
  quotation mark, a backslash and \<^verbatim>\<open>u0027\<close> for the apostrophe, the character itself
  otherwise.\<close>

definition escapedUnicodeForm :: "char \<Rightarrow> string" where
  "escapedUnicodeForm c =
     (if c = CHR 0x22 then [CHR 0x5C, CHR ''u'', CHR ''0'', CHR ''0'', CHR ''2'', CHR ''2'']
      else if c = CHR 0x27 then [CHR 0x5C, CHR ''u'', CHR ''0'', CHR ''0'', CHR ''2'', CHR ''7'']
      else [c])"

text \<open>The size delta of an element whose substituted value is \<open>v\<close>: the length of \<open>v\<close> minus
  the recorded length of the placeholder; zero for a static element.\<close>

fun sizeDelta :: "IReconstructionElement \<Rightarrow> string \<Rightarrow> int" where
  "sizeDelta (Static s) v = 0"
| "sizeDelta (Localized vals sz name path) v = int (length v) - sz"
| "sizeDelta (Dynamic fn sz tok) v = int (length v) - sz"

text \<open>A rendered asset \<open>r\<close> is a rendering of the plan for a locale: its text is the
  concatenation of the substituted values and its size obeys the accounting law.\<close>

definition renderedFor ::
  "IReconstructionElement list \<Rightarrow> bool \<Rightarrow> string \<Rightarrow> int \<Rightarrow> string
    \<Rightarrow> IReconstructedString \<Rightarrow> bool" where
  "renderedFor series fm dl initialSize locale r \<longleftrightarrow>
     (\<exists>iss st.
        reconstructLocalizedElements fm dl locale
          \<lparr>reconstruction = [], sizeDiff = 0, issuesAcc = iss\<rparr> series = Inr st \<and>
        length (reconstruction st) = length series \<and>
        source r = concat (reconstruction st) \<and>
        size_r r = initialSize + (\<Sum>(e, v)\<leftarrow>zip series (reconstruction st). sizeDelta e v))"



text \<open>The value that the localized reconstructor puts in the text of a locale for an element
  of the plan: a static element is copied; a localized element gives the escaped form of its
  value for the locale or, when that value is absent or empty, of its value for the default
  locale if \<open>fillMissing\<close> is set and of the sentinel otherwise; a dynamic element gives the
  result of its value function on the locale and its token.\<close>

fun localizedValue :: "bool \<Rightarrow> string \<Rightarrow> string \<Rightarrow> IReconstructionElement \<Rightarrow> string" where
  "localizedValue fillMissing defaultLocale locale (Static s) = s"
| "localizedValue fillMissing defaultLocale locale (Localized vals sz name path) =
     concat (map escapedUnicodeForm
       (case map_of vals locale of
          Some (c # cs) \<Rightarrow> c # cs
        | _ \<Rightarrow>
            if fillMissing then (case map_of vals defaultLocale of None \<Rightarrow> [] | Some d \<Rightarrow> d)
            else ''-- MISSING STRING --''))"
| "localizedValue fillMissing defaultLocale locale (Dynamic fn sz tok) =
     (case fn locale tok of Inl e \<Rightarrow> [] | Inr v \<Rightarrow> v)"

text \<open>The issues that the localized reconstructor records for an element and a locale.\<close>

fun missingStringIssues :: "bool \<Rightarrow> string \<Rightarrow> IReconstructionElement \<Rightarrow> string list" where
  "missingStringIssues fillMissing locale (Static s) = []"
| "missingStringIssues fillMissing locale (Localized vals sz name path) =
     (case map_of vals locale of
        Some (c # cs) \<Rightarrow> []
      | _ \<Rightarrow>
          if fillMissing then []
          else [''The string '' @ [CHR 0x22] @ name @ [CHR 0x22] @ '' in '' @ [CHR 0x22] @ path
                  @ [CHR 0x22] @ '' is missing in the locale '' @ locale])"
| "missingStringIssues fillMissing locale (Dynamic fn sz tok) = []"

text \<open>The error of the first element on which the localized reconstructor throws for a locale,
  if there is one: a localized element without a usable value for the locale and without any
  value for the default locale when \<open>fillMissing\<close> is set, or a dynamic element whose value
  function throws.\<close>

fun firstLocalizedError ::
  "bool \<Rightarrow> string \<Rightarrow> string \<Rightarrow> IReconstructionElement list \<Rightarrow> error option" where
  "firstLocalizedError fillMissing defaultLocale locale [] = None"
| "firstLocalizedError fillMissing defaultLocale locale (Static s # es) =
     firstLocalizedError fillMissing defaultLocale locale es"
| "firstLocalizedError fillMissing defaultLocale locale (Localized vals sz name path # es) =
     (case map_of vals locale of
        Some (c # cs) \<Rightarrow> firstLocalizedError fillMissing defaultLocale locale es
      | _ \<Rightarrow>
          if fillMissing \<and> map_of vals defaultLocale = None then Some TypeError
          else firstLocalizedError fillMissing defaultLocale locale es)"
| "firstLocalizedError fillMissing defaultLocale locale (Dynamic fn sz tok # es) =
     (case fn locale tok of
        Inl e \<Rightarrow> Some e
      | Inr v \<Rightarrow> firstLocalizedError fillMissing defaultLocale locale es)"

text \<open>The matches of the placeholder expression in a source, as successive calls of
  \<^verbatim>\<open>exec\<close> deliver them when the expression's \<^verbatim>\<open>lastIndex\<close> is \<open>reLastIndex\<close> at
  first: each call resumes at the end of the match before it.\<close>

function allMatchesFrom :: "nat \<Rightarrow> string \<Rightarrow> RegExpExecArray list" where
  "allMatchesFrom reLastIndex src =
     (case exec reLastIndex src of
        None \<Rightarrow> []
      | Some m \<Rightarrow> m # allMatchesFrom (m_index m + length (m_placeholder m)) src)"
  by pat_completeness auto

text \<open>A match of label C without a token, and a match of label A whose serial number the
  string table does not hold.\<close>

definition tokenlessJsonp :: "RegExpExecArray \<Rightarrow> bool" where
  "tokenlessJsonp m \<longleftrightarrow> m_elementLabel m = ''C'' \<and> m_token m = None"

definition missingSerial ::
  "(string \<Rightarrow> IStringSerialNumberData option) \<Rightarrow> RegExpExecArray \<Rightarrow> bool" where
  "missingSerial getDataForSerialNumber m \<longleftrightarrow>
     m_elementLabel m = ''A'' \<and> getDataForSerialNumber (m_placeholderSerialNumber m) = None"

text \<open>The issues of the matches whose serial number is missing, in the order of the
  matches.\<close>

definition missingPlaceholderIssues ::
  "(string \<Rightarrow> IStringSerialNumberData option) \<Rightarrow> RegExpExecArray list \<Rightarrow> string list" where
  "missingPlaceholderIssues getDataForSerialNumber ms =
     map (\<lambda>m. ''Missing placeholder '' @ m_placeholder m)
       (filter (missingSerial getDataForSerialNumber) ms)"

text \<open>The element of the plan that stands for a match, and the plan for a list of matches:
  before each match the static text from the end of the match before it (from \<open>li\<close> for the
  first), after the last match the rest of the source.\<close>

definition elementFor ::
  "(string \<Rightarrow> IStringSerialNumberData option) \<Rightarrow> (string \<Rightarrow> string option \<Rightarrow> error + string)
    \<Rightarrow> RegExpExecArray \<Rightarrow> IReconstructionElement" where
  "elementFor getDataForSerialNumber jsonpFunction m =
     (if m_elementLabel m = ''A'' then
        (case getDataForSerialNumber (m_placeholderSerialNumber m) of
           None \<Rightarrow> Static (m_placeholder m)
         | Some stringData \<Rightarrow>
             Localized (sd_values stringData) (int (length (m_placeholder m)))
               (sd_stringName stringData) (sd_locFilePath stringData))
      else if m_elementLabel m = ''B'' then
        Dynamic localeNameFn (int (length (m_placeholder m))) None
      else
        Dynamic jsonpFunction (int (length (m_placeholder m)))
          (map_option (\<lambda>tok. substring tok 1 (length tok - 1)) (m_token m)))"

fun planFrom ::
  "(string \<Rightarrow> IStringSerialNumberData option) \<Rightarrow> (string \<Rightarrow> string option \<Rightarrow> error + string)
    \<Rightarrow> string \<Rightarrow> nat \<Rightarrow> RegExpExecArray list \<Rightarrow> IReconstructionElement list" where
  "planFrom getDataForSerialNumber jsonpFunction src li [] = [Static (drop li src)]"
| "planFrom getDataForSerialNumber jsonpFunction src li (m # ms) =
     Static (substring src li (m_index m))
       # elementFor getDataForSerialNumber jsonpFunction m
       # planFrom getDataForSerialNumber jsonpFunction src
           (m_index m + length (m_placeholder m)) ms"

text \<open>A plan with every kind of element, for the examples.\<close>

definition exampleSeries :: "IReconstructionElement list" where
  "exampleSeries =
     [Static ''var s = '',
      Localized [(''en-us'', ''hello''), (''es-es'', ''hola, mundo'')] 9 ''greeting''
        ''strings.loc.json'',
      Static ''; var l = '',
      Dynamic localeNameFn 7 None,
      Static '';'']"

text \<open>A string table without entries.\<close>

definition noData :: "string \<Rightarrow> IStringSerialNumberData option" where
  "noData serial = None"

text \<open>A translated value with two quotation marks and an apostrophe.\<close>

definition quotedValue :: string where
  "quotedValue = ''say '' @ [CHR 0x22] @ ''hi'' @ [CHR 0x22] @ '', it'' @ [CHR 0x27] @ ''s''"


text \<open>Three asynchronous chunks, two of them marked.\<close>

definition exampleChunks :: "Chunk list" where
  "exampleChunks =
     [\<lparr>id' = ''1'', mark = True\<rparr>, \<lparr>id' = ''main'', mark = True\<rparr>, \<lparr>id' = ''0'', mark = False\<rparr>]"

text \<open>Placeholders and sources for the examples: a placeholder of label A alone, followed
  by a placeholder of label B, followed by a placeholder of label C that has no token, and
  preceded by the prefix with the label D; and the matches of the expression in them.\<close>

definition examplePlaceholder :: string where
  "examplePlaceholder = STRING_PLACEHOLDER_PREFIX @ ''_A_7''"







definition exampleUnknownSource :: string where
  "exampleUnknownSource = ''x'' @ STRING_PLACEHOLDER_PREFIX @ ''_D_0'' @ examplePlaceholder"

definition exampleLaterMatch :: RegExpExecArray where
  "exampleLaterMatch =
     \<lparr>m_index = 59, m_placeholder = examplePlaceholder, m_elementLabel = ''A'',
      m_token = None, m_placeholderSerialNumber = ''7''\<rparr>"

text \<open>String tables for the examples, one without a Spanish value and one with an empty
  one, and the results of rendering with them.\<close>

definition helloValues :: ILocaleElementMap where
  "helloValues = [(''en-us'', ''hello'')]"

definition emptySpanishValues :: ILocaleElementMap where
  "emptySpanishValues = [(''en-us'', ''hello''), (''es-es'', [])]"

definition exampleFillResult :: ILocalizedReconstructionResult where
  "exampleFillResult =
     \<lparr>l_result = [(''en-us'', \<lparr>source = ''ahellob'', size_r = 96\<rparr>),
                  (''es-es'', \<lparr>source = ''ahellob'', size_r = 96\<rparr>)],
      l_issues = []\<rparr>"

definition exampleNoFillResult :: ILocalizedReconstructionResult where
  "exampleNoFillResult =
     \<lparr>l_result = [(''en-us'', \<lparr>source = ''ahellob'', size_r = 96\<rparr>),
                  (''es-es'', \<lparr>source = ''a-- MISSING STRING --b'', size_r = 111\<rparr>)],
      l_issues =
        [''The string '' @ [CHR 0x22] @ ''greeting'' @ [CHR 0x22] @ '' in '' @ [CHR 0x22]
           @ ''strings.loc.json'' @ [CHR 0x22] @ '' is missing in the locale es-es'']\<rparr>"

definition exampleEscapedResult :: ILocalizedReconstructionResult where
  "exampleEscapedResult =
     \<lparr>l_result =
        [(''en-us'',
          \<lparr>source = ''x = say '' @ [CHR 0x5C] @ ''u0022hi'' @ [CHR 0x5C] @ ''u0022, it''
                      @ [CHR 0x5C] @ ''u0027s;'',
           size_r = 120\<rparr>)],
      l_issues = []\<rparr>"

section \<open>Properties\<close>

subsection \<open>The scan terminates\<close>

text \<open>A match is not empty and lies inside the source, so every turn of the loop moves
  the expression's \<^verbatim>\<open>lastIndex\<close> forward.\<close>

lemma stripPrefix_Some: "stripPrefix p s = Some r \<Longrightarrow> s = p @ r"
  by (induction p s rule: stripPrefix.induct) (auto split: if_splits)

lemma matchSerial_Some: "matchSerial s = Some ds \<Longrightarrow> ds \<noteq> [] \<and> (\<exists>r. s = CHR ''_'' # ds @ r)"
  by (auto simp: matchSerial_def Let_def split: list.splits if_splits)
     (metis takeWhile_dropWhile_id)

lemma matchTokenGroup_Some: "matchTokenGroup s = Some (tok, r) \<Longrightarrow> s = tok @ r"
  by (auto simp: matchTokenGroup_def Let_def split: list.splits if_splits)
     (metis takeWhile_dropWhile_id)

lemma matchAt_Some:
  "matchAt i s = Some m \<Longrightarrow> m_index m = i \<and> m_placeholder m \<noteq> [] \<and> (\<exists>r. s = m_placeholder m @ r)"
  by (auto simp: matchAt_def split: option.splits list.splits if_splits
      dest!: stripPrefix_Some matchSerial_Some matchTokenGroup_Some)

lemma findMatch_Some:
  "findMatch i s = Some m \<Longrightarrow>
     i \<le> m_index m \<and> m_placeholder m \<noteq> [] \<and> m_index m + length (m_placeholder m) \<le> i + length s"
proof (induction i s rule: findMatch.induct)
  case (1 i)
  then show ?case by simp
next
  case (2 i c cs)
  show ?case
  proof (cases "matchAt i (c # cs)")
    case None
    with 2 show ?thesis by auto
  next
    case (Some m')
    with 2 have "m' = m" by simp
    with matchAt_Some [OF Some] show ?thesis
      by (metis le_refl length_append le_add1 nat_add_left_cancel_le)
  qed
qed

lemma exec_Some:
  "exec li s = Some m \<Longrightarrow>
     li \<le> m_index m \<and> m_placeholder m \<noteq> [] \<and> m_index m + length (m_placeholder m) \<le> length s"
  by (auto simp: exec_def split: if_splits dest!: findMatch_Some)

lemma parseMatch_next:
  "parseMatch g j src st m = Inr st' \<Longrightarrow>
     regexLastIndex st' = m_index m + length (m_placeholder m) \<and>
     lastIndex st' = m_index m + length (m_placeholder m)"
  by (auto simp: parseMatch_def Let_def split: if_splits option.splits)

termination parseLoop
proof (relation "measure (\<lambda>(g, j, src, st). Suc (length src) - regexLastIndex st)")
  show "wf (measure (\<lambda>(g, j, src, st). Suc (length src) - regexLastIndex st))"
    by simp
next
  fix g :: "string \<Rightarrow> IStringSerialNumberData option"
    and j :: "string \<Rightarrow> string option \<Rightarrow> error + string"
    and src st m st'
  assume e: "exec (regexLastIndex st) src = Some m"
    and p: "parseMatch g j src st m = Inr st'"
  from exec_Some [OF e] parseMatch_next [OF p]
  show "((g, j, src, st'), (g, j, src, st)) \<in>
      measure (\<lambda>(g, j, src, st). Suc (length src) - regexLastIndex st)"
    by (cases "m_placeholder m") auto
qed

declare parseLoop.simps [simp del]

termination allMatchesFrom
proof (relation "measure (\<lambda>(li, src). Suc (length src) - li)")
  show "wf (measure (\<lambda>(li, src). Suc (length src) - li))"
    by simp
next
  fix reLastIndex :: nat and src :: string and m
  assume "exec reLastIndex src = Some m"
  from exec_Some [OF this]
  show "((m_index m + length (m_placeholder m), src), (reLastIndex, src)) \<in>
      measure (\<lambda>(li, src). Suc (length src) - li)"
    by (cases "m_placeholder m") auto
qed

declare allMatchesFrom.simps [simp del]

subsection \<open>Escaping\<close>

lemma replaceAll_concat: "replaceAll c r s = concat (map (\<lambda>x. if x = c then r else [x]) s)"
  by (induction s) simp_all

lemma replaceAll_append: "replaceAll c r (a @ b) = replaceAll c r a @ replaceAll c r b"
  by (simp add: replaceAll_concat)

lemma escapeQuotes_concat: "escapeQuotes v = concat (map escapedUnicodeForm v)"
proof (induction v)
  case Nil
  show ?case by (simp add: escapeQuotes_def)
next
  case (Cons x xs)
  have q: "replaceAll CHR 0x27 escapedApostrophe escapedQuotemark = escapedQuotemark"
    by (simp add: escapedQuotemark_def backslash_def)
  from Cons show ?case
    by (simp add: escapeQuotes_def escapedUnicodeForm_def replaceAll_append q quotemark_def
        apostrophe_def)
      (simp add: escapedQuotemark_def escapedApostrophe_def backslash_def)
qed

lemma escapeQuotes_clean:
  "quotemark \<notin> set (escapeQuotes v) \<and> apostrophe \<notin> set (escapeQuotes v)"
  by (induction v)
    (auto simp: escapeQuotes_concat escapedUnicodeForm_def quotemark_def apostrophe_def)

lemma escapeQuotes_sentinel: "escapeQuotes missingStringSentinel = missingStringSentinel"
  by (simp add: escapeQuotes_def missingStringSentinel_def quotemark_def apostrophe_def)

subsection \<open>Size accounting\<close>

lemma elements_localized_shape:
  "reconstructLocalizedElements fm dl locale st es = Inr st' \<Longrightarrow>
   \<exists>vs. reconstruction st' = reconstruction st @ vs \<and> length vs = length es \<and>
        sizeDiff st' = sizeDiff st + (\<Sum>(e, v)\<leftarrow>zip es vs. sizeDelta e v)"
proof (induction es arbitrary: st)
  case Nil
  then show ?case by simp
next
  case (Cons e es)
  from Cons.prems obtain st1 where
    s1: "reconstructLocalizedElement fm dl locale st e = Inr st1" and
    s2: "reconstructLocalizedElements fm dl locale st1 es = Inr st'"
    by (auto split: sum.splits)
  from s1 obtain v where
    v: "reconstruction st1 = reconstruction st @ [v]" "sizeDiff st1 = sizeDiff st + sizeDelta e v"
    by (cases e) (auto split: sum.splits option.splits if_splits simp: Let_def)
  from Cons.IH [OF s2] obtain vs where
    vs: "reconstruction st' = reconstruction st1 @ vs" "length vs = length es"
      "sizeDiff st' = sizeDiff st1 + (\<Sum>(e, v)\<leftarrow>zip es vs. sizeDelta e v)"
    by blast
  show ?case
    by (rule exI [of _ "v # vs"]) (simp add: v vs)
qed

lemma elements_nonlocalized_shape:
  "reconstructNonLocalizedElements ns st es = Inr st' \<Longrightarrow>
   \<exists>vs. reconstruction st' = reconstruction st @ vs \<and> length vs = length es \<and>
        sizeDiff st' = sizeDiff st + (\<Sum>(e, v)\<leftarrow>zip es vs. sizeDelta e v)"
proof (induction es arbitrary: st)
  case Nil
  then show ?case by simp
next
  case (Cons e es)
  from Cons.prems obtain st1 where
    s1: "reconstructNonLocalizedElement ns st e = Inr st1" and
    s2: "reconstructNonLocalizedElements ns st1 es = Inr st'"
    by (auto split: sum.splits)
  from s1 obtain v where
    v: "reconstruction st1 = reconstruction st @ [v]" "sizeDiff st1 = sizeDiff st + sizeDelta e v"
    by (cases e) (auto split: sum.splits)
  from Cons.IH [OF s2] obtain vs where
    vs: "reconstruction st' = reconstruction st1 @ vs" "length vs = length es"
      "sizeDiff st' = sizeDiff st1 + (\<Sum>(e, v)\<leftarrow>zip es vs. sizeDelta e v)"
    by blast
  show ?case
    by (rule exI [of _ "v # vs"]) (simp add: v vs)
qed

lemma locales_rendered:
  "reconstructLocalizedLocales series fm dl initialSize acc locales = Inr res \<Longrightarrow>
   (\<And>l r. map_of (l_result acc) l = Some r \<Longrightarrow> renderedFor series fm dl initialSize l r) \<Longrightarrow>
   l \<in> set locales \<or> l \<in> dom (map_of (l_result acc)) \<Longrightarrow>
   \<exists>r. map_of (l_result res) l = Some r \<and> renderedFor series fm dl initialSize l r"
proof (induction locales arbitrary: acc)
  case Nil
  then show ?case by auto
next
  case (Cons lc rest)
  from Cons.prems(1) obtain st where
    st: "reconstructLocalizedElements fm dl lc
           \<lparr>reconstruction = [], sizeDiff = 0, issuesAcc = l_issues acc\<rparr> series = Inr st"
    by (auto split: sum.splits)
  let ?r = "\<lparr>source = concat (reconstruction st), size_r = initialSize + sizeDiff st\<rparr>"
  let ?acc = "\<lparr>l_result = AList.update lc ?r (l_result acc), l_issues = issuesAcc st\<rparr>"
  from Cons.prems(1) st have rest:
    "reconstructLocalizedLocales series fm dl initialSize ?acc rest = Inr res"
    by simp
  from elements_localized_shape [OF st] st have new: "renderedFor series fm dl initialSize lc ?r"
    unfolding renderedFor_def by (intro exI [of _ "l_issues acc"] exI [of _ st]) auto
  have inv: "\<And>l r. map_of (l_result ?acc) l = Some r \<Longrightarrow> renderedFor series fm dl initialSize l r"
    using new Cons.prems(2) by (auto simp: update_conv' split: if_splits)
  have "l \<in> set rest \<or> l \<in> dom (map_of (l_result ?acc))"
    using Cons.prems(3) by (auto simp: update_conv')
  from Cons.IH [OF rest inv this] show ?case .
qed

lemma example_localized:
  "reconstructLocalized exampleSeries [''en-us'', ''es-es''] True ''en-us'' 100 =
     Inr \<lparr>l_result =
            [(''en-us'', \<lparr>source = ''var s = hello; var l = en-us;'', size_r = 94\<rparr>),
             (''es-es'', \<lparr>source = ''var s = hola, mundo; var l = es-es;'', size_r = 100\<rparr>)],
          l_issues = []\<rparr>"
  by (simp add: reconstructLocalized_def exampleSeries_def localeNameFn_def escapeQuotes_def
      quotemark_def apostrophe_def)

lemma example_nonlocalized:
  "reconstructNonLocalized exampleSeries 100 ''none'' =
     Inr \<lparr>n_result =
            \<lparr>source = ''var s = -- NOT EXPECTED TO BE LOCALIZED --; var l = none;'', size_r = 122\<rparr>,
          n_issues = [notExpectedIssue ''greeting'' ''strings.loc.json'']\<rparr>"
  by (simp add: reconstructNonLocalized_def exampleSeries_def localeNameFn_def
      notExpectedSentinel_def)

text \<open>
  Claim C1. For every plan, locale and initial size, the size reported by the localized
  reconstructor for the locale is the initial size plus the sum, over the elements of the plan,
  of the length of the value substituted for the element minus the recorded length of its
  placeholder, a static element counting zero; the values are the entries of the array
  \<^verbatim>\<open>reconstruction\<close>, one for each element, whose concatenation is the rendered text. The
  same law holds for the non-localized reconstructor.
\<close>

theorem size_accounting_law:
  "(reconstructLocalized series locales fm dl initialSize = Inr res \<and> l \<in> set locales \<longrightarrow>
      (\<exists>r iss st.
         map_of (l_result res) l = Some r \<and>
         reconstructLocalizedElements fm dl l
           \<lparr>reconstruction = [], sizeDiff = 0, issuesAcc = iss\<rparr> series = Inr st \<and>
         length (reconstruction st) = length series \<and>
         source r = concat (reconstruction st) \<and>
         size_r r = initialSize + (\<Sum>(e, v)\<leftarrow>zip series (reconstruction st). sizeDelta e v))) \<and>
   (reconstructNonLocalized series initialSize ns = Inr res' \<longrightarrow>
      (\<exists>st.
         reconstructNonLocalizedElements ns
           \<lparr>reconstruction = [], sizeDiff = 0, issuesAcc = []\<rparr> series = Inr st \<and>
         length (reconstruction st) = length series \<and>
         source (n_result res') = concat (reconstruction st) \<and>
         size_r (n_result res') =
           initialSize + (\<Sum>(e, v)\<leftarrow>zip series (reconstruction st). sizeDelta e v)))"
proof (intro conjI impI)
  assume a: "reconstructLocalized series locales fm dl initialSize = Inr res \<and> l \<in> set locales"
  then have run: "reconstructLocalizedLocales series fm dl initialSize
      \<lparr>l_result = [], l_issues = []\<rparr> locales = Inr res"
    by (simp add: reconstructLocalized_def)
  have "\<exists>r. map_of (l_result res) l = Some r \<and> renderedFor series fm dl initialSize l r"
    by (rule locales_rendered [OF run]) (use a in simp_all)
  then show "\<exists>r iss st.
         map_of (l_result res) l = Some r \<and>
         reconstructLocalizedElements fm dl l
           \<lparr>reconstruction = [], sizeDiff = 0, issuesAcc = iss\<rparr> series = Inr st \<and>
         length (reconstruction st) = length series \<and>
         source r = concat (reconstruction st) \<and>
         size_r r = initialSize + (\<Sum>(e, v)\<leftarrow>zip series (reconstruction st). sizeDelta e v)"
    unfolding renderedFor_def by blast
next
  assume a: "reconstructNonLocalized series initialSize ns = Inr res'"
  then obtain st where
    st: "reconstructNonLocalizedElements ns
           \<lparr>reconstruction = [], sizeDiff = 0, issuesAcc = []\<rparr> series = Inr st" and
    res: "res' = \<lparr>n_result = \<lparr>source = concat (reconstruction st),
                                    size_r = initialSize + sizeDiff st\<rparr>,
                        n_issues = issuesAcc st\<rparr>"
    by (auto simp: reconstructNonLocalized_def split: sum.splits)
  from elements_nonlocalized_shape [OF st] st res
  show "\<exists>st.
         reconstructNonLocalizedElements ns
           \<lparr>reconstruction = [], sizeDiff = 0, issuesAcc = []\<rparr> series = Inr st \<and>
         length (reconstruction st) = length series \<and>
         source (n_result res') = concat (reconstruction st) \<and>
         size_r (n_result res') =
           initialSize + (\<Sum>(e, v)\<leftarrow>zip series (reconstruction st). sizeDelta e v)"
    by (intro exI [of _ st]) auto
qed

theorem size_accounting_law_witness:
  "reconstructLocalized exampleSeries [''en-us'', ''es-es''] True ''en-us'' 100 =
     Inr \<lparr>l_result =
            [(''en-us'', \<lparr>source = ''var s = hello; var l = en-us;'', size_r = 94\<rparr>),
             (''es-es'', \<lparr>source = ''var s = hola, mundo; var l = es-es;'', size_r = 100\<rparr>)],
          l_issues = []\<rparr> \<and>
   ''en-us'' \<in> set [''en-us'', ''es-es''] \<and>
   (\<exists>r iss st.
       map_of [(''en-us'', \<lparr>source = ''var s = hello; var l = en-us;'', size_r = 94\<rparr>),
               (''es-es'', \<lparr>source = ''var s = hola, mundo; var l = es-es;'', size_r = 100\<rparr>)]
         ''en-us'' = Some r \<and>
       reconstructLocalizedElements True ''en-us'' ''en-us''
         \<lparr>reconstruction = [], sizeDiff = 0, issuesAcc = iss\<rparr> exampleSeries = Inr st \<and>
       length (reconstruction st) = length exampleSeries \<and>
       source r = concat (reconstruction st) \<and>
       size_r r = 100 + (\<Sum>(e, v)\<leftarrow>zip exampleSeries (reconstruction st). sizeDelta e v)) \<and>
   reconstructNonLocalized exampleSeries 100 ''none'' =
     Inr \<lparr>n_result =
            \<lparr>source = ''var s = -- NOT EXPECTED TO BE LOCALIZED --; var l = none;'', size_r = 122\<rparr>,
          n_issues = [notExpectedIssue ''greeting'' ''strings.loc.json'']\<rparr> \<and>
   (\<exists>st.
       reconstructNonLocalizedElements ''none''
         \<lparr>reconstruction = [], sizeDiff = 0, issuesAcc = []\<rparr> exampleSeries = Inr st \<and>
       length (reconstruction st) = length exampleSeries \<and>
       ''var s = -- NOT EXPECTED TO BE LOCALIZED --; var l = none;'' = concat (reconstruction st) \<and>
       (122::int) = 100 + (\<Sum>(e, v)\<leftarrow>zip exampleSeries (reconstruction st). sizeDelta e v))"
proof -
  have mem: "''en-us'' \<in> set [''en-us'', ''es-es'']"
    by simp
  note loc = size_accounting_law [THEN conjunct1, rule_format, OF conjI, OF example_localized mem]
  note non = size_accounting_law [THEN conjunct2, rule_format, OF example_nonlocalized]
  from non have non': "\<exists>st.
       reconstructNonLocalizedElements ''none''
         \<lparr>reconstruction = [], sizeDiff = 0, issuesAcc = []\<rparr> exampleSeries = Inr st \<and>
       length (reconstruction st) = length exampleSeries \<and>
       ''var s = -- NOT EXPECTED TO BE LOCALIZED --; var l = none;'' = concat (reconstruction st) \<and>
       (122::int) = 100 + (\<Sum>(e, v)\<leftarrow>zip exampleSeries (reconstruction st). sizeDelta e v)"
    by simp
  from loc have loc': "\<exists>r iss st.
       map_of [(''en-us'', \<lparr>source = ''var s = hello; var l = en-us;'', size_r = 94\<rparr>),
               (''es-es'', \<lparr>source = ''var s = hola, mundo; var l = es-es;'', size_r = 100\<rparr>)]
         ''en-us'' = Some r \<and>
       reconstructLocalizedElements True ''en-us'' ''en-us''
         \<lparr>reconstruction = [], sizeDiff = 0, issuesAcc = iss\<rparr> exampleSeries = Inr st \<and>
       length (reconstruction st) = length exampleSeries \<and>
       source r = concat (reconstruction st) \<and>
       size_r r = 100 + (\<Sum>(e, v)\<leftarrow>zip exampleSeries (reconstruction st). sizeDelta e v)"
    by (simp only: ILocalizedReconstructionResult.simps)
  show ?thesis
    by (intro conjI example_localized mem loc' example_nonlocalized non')
qed

subsection \<open>The localized reconstructor in closed form\<close>

lemma element_localized_closed:
  "reconstructLocalizedElement fm dl locale st e =
     (case firstLocalizedError fm dl locale [e] of
        Some err \<Rightarrow> Inl err
      | None \<Rightarrow>
          Inr \<lparr>reconstruction = reconstruction st @ [localizedValue fm dl locale e],
               sizeDiff = sizeDiff st + sizeDelta e (localizedValue fm dl locale e),
               issuesAcc = issuesAcc st @ missingStringIssues fm locale e\<rparr>)"
proof (cases e)
  case (Static s)
  then show ?thesis by simp
next
  case (Localized vals sz name path)
  show ?thesis
  proof (cases "map_of vals locale")
    case None
    with Localized escapeQuotes_sentinel show ?thesis
      by (cases "map_of vals dl")
        (auto simp: escapeQuotes_concat missingIssue_def quotemark_def missingStringSentinel_def)
  next
    case (Some v)
    with Localized escapeQuotes_sentinel show ?thesis
      by (cases v; cases "map_of vals dl")
        (auto simp: escapeQuotes_concat missingIssue_def quotemark_def missingStringSentinel_def)
  qed
next
  case (Dynamic fn sz tok)
  then show ?thesis by (simp split: sum.splits)
qed

lemma firstLocalizedError_Cons:
  "firstLocalizedError fm dl locale (e # es) =
     (case firstLocalizedError fm dl locale [e] of
        Some err \<Rightarrow> Some err
      | None \<Rightarrow> firstLocalizedError fm dl locale es)"
  by (cases e) (auto split: option.splits list.splits sum.splits)

lemma firstLocalizedError_append:
  "firstLocalizedError fm dl locale (a @ b) =
     (case firstLocalizedError fm dl locale a of
        Some err \<Rightarrow> Some err
      | None \<Rightarrow> firstLocalizedError fm dl locale b)"
proof (induction a)
  case Nil
  show ?case by simp
next
  case (Cons e a)
  have "firstLocalizedError fm dl locale (e # (a @ b)) =
      (case firstLocalizedError fm dl locale (e # a) of
         Some err \<Rightarrow> Some err
       | None \<Rightarrow> firstLocalizedError fm dl locale b)"
    by (subst firstLocalizedError_Cons, subst (2) firstLocalizedError_Cons)
      (simp add: Cons split: option.splits)
  then show ?case by simp
qed

lemma elements_localized_closed:
  "reconstructLocalizedElements fm dl locale st es =
     (case firstLocalizedError fm dl locale es of
        Some err \<Rightarrow> Inl err
      | None \<Rightarrow>
          Inr \<lparr>reconstruction = reconstruction st @ map (localizedValue fm dl locale) es,
               sizeDiff = sizeDiff st + (\<Sum>e\<leftarrow>es. sizeDelta e (localizedValue fm dl locale e)),
               issuesAcc = issuesAcc st @ concat (map (missingStringIssues fm locale) es)\<rparr>)"
proof (induction es arbitrary: st)
  case Nil
  show ?case by simp
next
  case (Cons e es)
  show ?case
    by (subst firstLocalizedError_Cons)
      (simp add: element_localized_closed Cons split: option.splits)
qed

lemma locales_localized_closed:
  "reconstructLocalizedLocales series fm dl initialSize acc locales = Inr res \<Longrightarrow>
     l_issues res =
       l_issues acc @ concat (map (\<lambda>l. concat (map (missingStringIssues fm l) series)) locales) \<and>
     (\<forall>l. l \<in> set locales \<longrightarrow> firstLocalizedError fm dl l series = None) \<and>
     (\<forall>l. map_of (l_result res) l =
        (if l \<in> set locales
         then Some \<lparr>source = concat (map (localizedValue fm dl l) series),
                    size_r = initialSize +
                      (\<Sum>e\<leftarrow>series. sizeDelta e (localizedValue fm dl l e))\<rparr>
         else map_of (l_result acc) l))"
proof (induction locales arbitrary: acc)
  case Nil
  then show ?case by simp
next
  case (Cons lc rest)
  from Cons.prems have ok: "firstLocalizedError fm dl lc series = None"
    by (auto simp: elements_localized_closed split: option.splits)
  let ?r = "\<lparr>source = concat (map (localizedValue fm dl lc) series),
       size_r = initialSize + (\<Sum>e\<leftarrow>series. sizeDelta e (localizedValue fm dl lc e))\<rparr>"
  let ?acc = "\<lparr>l_result = AList.update lc ?r (l_result acc),
       l_issues = l_issues acc @ concat (map (missingStringIssues fm lc) series)\<rparr>"
  from Cons.prems ok have rest:
    "reconstructLocalizedLocales series fm dl initialSize ?acc rest = Inr res"
    by (simp add: elements_localized_closed)
  from Cons.IH [OF rest] ok show ?case
    by (auto simp: update_conv')
qed

lemma reconstructLocalized_closed:
  assumes "reconstructLocalized series locales fm dl initialSize = Inr res"
  shows "l_issues res = concat (map (\<lambda>l. concat (map (missingStringIssues fm l) series)) locales)"
    and "l \<in> set locales \<Longrightarrow> firstLocalizedError fm dl l series = None"
    and "l \<in> set locales \<Longrightarrow> map_of (l_result res) l =
        Some \<lparr>source = concat (map (localizedValue fm dl l) series),
              size_r = initialSize + (\<Sum>e\<leftarrow>series. sizeDelta e (localizedValue fm dl l e))\<rparr>"
  using locales_localized_closed [OF assms [unfolded reconstructLocalized_def]]
  by simp_all

lemma locales_localized_returns:
  "(\<forall>l\<in>set locales. firstLocalizedError fm dl l series = None) \<Longrightarrow>
     \<exists>res. reconstructLocalizedLocales series fm dl initialSize acc locales = Inr res"
proof (induction locales arbitrary: acc)
  case Nil
  show ?case by simp
next
  case (Cons lc rest)
  then show ?case
    by (simp add: elements_localized_closed)
qed

lemma reconstructLocalized_returns:
  "(\<exists>res. reconstructLocalized series locales fm dl initialSize = Inr res) \<longleftrightarrow>
     (\<forall>l\<in>set locales. firstLocalizedError fm dl l series = None)"
proof
  assume "\<exists>res. reconstructLocalized series locales fm dl initialSize = Inr res"
  then obtain res where "reconstructLocalized series locales fm dl initialSize = Inr res" ..
  from reconstructLocalized_closed(2) [OF this]
  show "\<forall>l\<in>set locales. firstLocalizedError fm dl l series = None"
    by blast
next
  assume "\<forall>l\<in>set locales. firstLocalizedError fm dl l series = None"
  then show "\<exists>res. reconstructLocalized series locales fm dl initialSize = Inr res"
    unfolding reconstructLocalized_def by (rule locales_localized_returns)
qed

lemma firstLocalizedError_middle:
  "firstLocalizedError fm dl l (pre @ e # post) = None \<Longrightarrow> firstLocalizedError fm dl l [e] = None"
  using firstLocalizedError_append [of fm dl l pre "e # post"]
    firstLocalizedError_Cons [of fm dl l e post]
  by (auto split: option.splits)

lemma firstLocalizedError_middle_iff:
  "firstLocalizedError fm dl l (pre @ e # post) = None \<longleftrightarrow>
     firstLocalizedError fm dl l [e] = None \<and> firstLocalizedError fm dl l (pre @ post) = None"
  using firstLocalizedError_append [of fm dl l pre "e # post"]
    firstLocalizedError_append [of fm dl l pre post]
    firstLocalizedError_Cons [of fm dl l e post]
  by (auto split: option.splits)

lemma falsy_translation_returns:
  assumes "map_of vals locale = None \<or> map_of vals locale = Some []"
  shows "(\<exists>res. reconstructLocalized (pre @ Localized vals sz name path # post)
             (ls1 @ locale # ls2) fm dl initialSize = Inr res) \<longleftrightarrow>
         (fm \<longrightarrow> (\<exists>d. map_of vals dl = Some d)) \<and>
         (\<forall>l\<in>set (ls1 @ locale # ls2). firstLocalizedError fm dl l (pre @ post) = None)"
proof -
  let ?e = "Localized vals sz name path"
  have here: "firstLocalizedError fm dl locale [?e] = None \<longleftrightarrow> (fm \<longrightarrow> (\<exists>d. map_of vals dl = Some d))"
    using assms by auto
  have any: "(fm \<longrightarrow> (\<exists>d. map_of vals dl = Some d)) \<Longrightarrow> firstLocalizedError fm dl l [?e] = None"
    for l
    by (auto split: option.splits list.splits)
  have "(\<forall>l\<in>set (ls1 @ locale # ls2). firstLocalizedError fm dl l [?e] = None) \<longleftrightarrow>
      (fm \<longrightarrow> (\<exists>d. map_of vals dl = Some d))"
  proof
    assume "\<forall>l\<in>set (ls1 @ locale # ls2). firstLocalizedError fm dl l [?e] = None"
    then have "firstLocalizedError fm dl locale [?e] = None"
      by simp
    with here show "fm \<longrightarrow> (\<exists>d. map_of vals dl = Some d)"
      by simp
  next
    assume "fm \<longrightarrow> (\<exists>d. map_of vals dl = Some d)"
    with any show "\<forall>l\<in>set (ls1 @ locale # ls2). firstLocalizedError fm dl l [?e] = None"
      by blast
  qed
  then show ?thesis
    unfolding reconstructLocalized_returns firstLocalizedError_middle_iff by blast
qed

lemma localizedValue_clean:
  "CHR 0x22 \<notin> set (localizedValue fm dl l (Localized vals sz name path)) \<and>
   CHR 0x27 \<notin> set (localizedValue fm dl l (Localized vals sz name path))"
  using escapeQuotes_clean [unfolded escapeQuotes_concat quotemark_def apostrophe_def]
  by simp

lemma localizedValue_present:
  "map_of vals l = Some (c # cs) \<Longrightarrow>
     localizedValue fm dl l (Localized vals sz name path) = concat (map escapedUnicodeForm (c # cs))"
  by simp

lemma localizedValue_fill:
  "map_of vals l = None \<or> map_of vals l = Some [] \<Longrightarrow> map_of vals dl = Some d \<Longrightarrow>
     localizedValue True dl l (Localized vals sz name path) = concat (map escapedUnicodeForm d)"
  by auto

lemma localizedValue_sentinel:
  "map_of vals l = None \<or> map_of vals l = Some [] \<Longrightarrow>
     localizedValue False dl l (Localized vals sz name path) =
       concat (map escapedUnicodeForm ''-- MISSING STRING --'')"
  by auto

lemma missingStringIssues_fill: "missingStringIssues True l e = []"
  by (cases e) (auto split: option.splits list.splits)

lemma no_issues_fill:
  "concat (map (\<lambda>l. concat (map (missingStringIssues True l) es)) ls) = []"
  by (simp add: missingStringIssues_fill)

subsection \<open>Missing translations and escaping\<close>

lemma missing_translation_rendering:
  assumes "map_of vals locale = None"
    and "reconstructLocalized (pre @ Localized vals sz name path # post) (ls1 @ locale # ls2)
           fillMissing dl initialSize = Inr res"
  shows
    "(fillMissing \<longrightarrow>
        (\<exists>d. map_of vals dl = Some d \<and>
           map_of (l_result res) locale =
             Some \<lparr>source = concat (map (localizedValue True dl locale) pre)
                      @ concat (map escapedUnicodeForm d)
                      @ concat (map (localizedValue True dl locale) post),
                   size_r = initialSize +
                     ((\<Sum>e\<leftarrow>pre. sizeDelta e (localizedValue True dl locale e))
                      + (int (length (concat (map escapedUnicodeForm d))) - sz)
                      + (\<Sum>e\<leftarrow>post. sizeDelta e (localizedValue True dl locale e)))\<rparr>) \<and>
        l_issues res = []) \<and>
     (\<not> fillMissing \<longrightarrow>
        map_of (l_result res) locale =
          Some \<lparr>source = concat (map (localizedValue False dl locale) pre)
                   @ ''-- MISSING STRING --''
                   @ concat (map (localizedValue False dl locale) post),
                size_r = initialSize +
                  ((\<Sum>e\<leftarrow>pre. sizeDelta e (localizedValue False dl locale e))
                   + (20 - sz)
                   + (\<Sum>e\<leftarrow>post. sizeDelta e (localizedValue False dl locale e)))\<rparr> \<and>
        l_issues res =
          concat (map (\<lambda>l. concat (map (missingStringIssues False l)
                                   (pre @ Localized vals sz name path # post))) ls1)
          @ (concat (map (missingStringIssues False locale) pre)
             @ [''The string '' @ [CHR 0x22] @ name @ [CHR 0x22] @ '' in '' @ [CHR 0x22] @ path
                  @ [CHR 0x22] @ '' is missing in the locale '' @ locale]
             @ concat (map (missingStringIssues False locale) post))
          @ concat (map (\<lambda>l. concat (map (missingStringIssues False l)
                                     (pre @ Localized vals sz name path # post))) ls2))"
proof -
  let ?el = "Localized vals sz name path"
  have mem: "locale \<in> set (ls1 @ locale # ls2)"
    by simp
  note iss = reconstructLocalized_closed(1) [OF assms(2)]
  note ok = reconstructLocalized_closed(2) [OF assms(2) mem]
  note out = reconstructLocalized_closed(3) [OF assms(2) mem]
  from ok have el_ok: "firstLocalizedError fillMissing dl locale [?el] = None"
    by (rule firstLocalizedError_middle)
  show ?thesis
  proof (intro conjI impI)
    assume fm: fillMissing
    with el_ok assms(1) obtain d where d: "map_of vals dl = Some d"
      by (cases "map_of vals dl") auto
    from out fm d assms(1)
    show "\<exists>d. map_of vals dl = Some d \<and>
           map_of (l_result res) locale =
             Some \<lparr>source = concat (map (localizedValue True dl locale) pre)
                      @ concat (map escapedUnicodeForm d)
                      @ concat (map (localizedValue True dl locale) post),
                   size_r = initialSize +
                     ((\<Sum>e\<leftarrow>pre. sizeDelta e (localizedValue True dl locale e))
                      + (int (length (concat (map escapedUnicodeForm d))) - sz)
                      + (\<Sum>e\<leftarrow>post. sizeDelta e (localizedValue True dl locale e)))\<rparr>"
      by (intro exI [of _ d]) simp
    from fm have "fillMissing = True"
      by simp
    with iss show "l_issues res = []"
      by (simp only: no_issues_fill)
  next
    assume fm: "\<not> fillMissing"
    from out fm assms(1)
    show "map_of (l_result res) locale =
          Some \<lparr>source = concat (map (localizedValue False dl locale) pre)
                   @ ''-- MISSING STRING --''
                   @ concat (map (localizedValue False dl locale) post),
                size_r = initialSize +
                  ((\<Sum>e\<leftarrow>pre. sizeDelta e (localizedValue False dl locale e))
                   + (20 - sz)
                   + (\<Sum>e\<leftarrow>post. sizeDelta e (localizedValue False dl locale e)))\<rparr>"
      by (simp add: escapedUnicodeForm_def)
    from iss fm assms(1)
    show "l_issues res =
          concat (map (\<lambda>l. concat (map (missingStringIssues False l) (pre @ ?el # post))) ls1)
          @ (concat (map (missingStringIssues False locale) pre)
             @ [''The string '' @ [CHR 0x22] @ name @ [CHR 0x22] @ '' in '' @ [CHR 0x22] @ path
                  @ [CHR 0x22] @ '' is missing in the locale '' @ locale]
             @ concat (map (missingStringIssues False locale) post))
          @ concat (map (\<lambda>l. concat (map (missingStringIssues False l) (pre @ ?el # post))) ls2)"
      by simp
  qed
qed

text \<open>
  Claim C3, as amended. Take a localized element of a plan and a requested locale for which the
  element has no value. The reconstructor returns exactly when no other element throws for a
  requested locale and, if \<open>fillMissing\<close> is set, the default locale has a value for the
  string. In every result it returns: if \<open>fillMissing\<close> is set, the text of the locale has, at
  the place of the element, the value of the default locale in escaped form, the size counts the
  length of that value minus the length of the placeholder, and the call records no issue; if
  \<open>fillMissing\<close> is not set, the text has the sentinel \<^verbatim>\<open>-- MISSING STRING --\<close> at that
  place, the size counts 20 minus the length of the placeholder, and the issues of the locale
  hold, between those of the elements before and those of the elements after, the one issue
  \<^verbatim>\<open>The string "name" in "path" is missing in the locale\<close> followed by the locale. The
  claim as written also covers a default locale without a value, where the reconstructor throws.
\<close>

theorem missing_translation_policy:
  assumes "map_of vals locale = None"
  shows
    "((\<exists>res. reconstructLocalized (pre @ Localized vals sz name path # post)
          (ls1 @ locale # ls2) fillMissing dl initialSize = Inr res) \<longleftrightarrow>
        (fillMissing \<longrightarrow> (\<exists>d. map_of vals dl = Some d)) \<and>
        (\<forall>l\<in>set (ls1 @ locale # ls2). firstLocalizedError fillMissing dl l (pre @ post) = None)) \<and>
     (\<forall>res. reconstructLocalized (pre @ Localized vals sz name path # post)
          (ls1 @ locale # ls2) fillMissing dl initialSize = Inr res \<longrightarrow>
       (fillMissing \<longrightarrow>
          (\<exists>d. map_of vals dl = Some d \<and>
             map_of (l_result res) locale =
               Some \<lparr>source = concat (map (localizedValue True dl locale) pre)
                        @ concat (map escapedUnicodeForm d)
                        @ concat (map (localizedValue True dl locale) post),
                     size_r = initialSize +
                       ((\<Sum>e\<leftarrow>pre. sizeDelta e (localizedValue True dl locale e))
                        + (int (length (concat (map escapedUnicodeForm d))) - sz)
                        + (\<Sum>e\<leftarrow>post. sizeDelta e (localizedValue True dl locale e)))\<rparr>) \<and>
          l_issues res = []) \<and>
       (\<not> fillMissing \<longrightarrow>
          map_of (l_result res) locale =
            Some \<lparr>source = concat (map (localizedValue False dl locale) pre)
                     @ ''-- MISSING STRING --''
                     @ concat (map (localizedValue False dl locale) post),
                  size_r = initialSize +
                    ((\<Sum>e\<leftarrow>pre. sizeDelta e (localizedValue False dl locale e))
                     + (20 - sz)
                     + (\<Sum>e\<leftarrow>post. sizeDelta e (localizedValue False dl locale e)))\<rparr> \<and>
          l_issues res =
            concat (map (\<lambda>l. concat (map (missingStringIssues False l)
                                     (pre @ Localized vals sz name path # post))) ls1)
            @ (concat (map (missingStringIssues False locale) pre)
               @ [''The string '' @ [CHR 0x22] @ name @ [CHR 0x22] @ '' in '' @ [CHR 0x22] @ path
                    @ [CHR 0x22] @ '' is missing in the locale '' @ locale]
               @ concat (map (missingStringIssues False locale) post))
            @ concat (map (\<lambda>l. concat (map (missingStringIssues False l)
                                       (pre @ Localized vals sz name path # post))) ls2)))"
proof (intro conjI allI impI)
  from assms have "map_of vals locale = None \<or> map_of vals locale = Some []"
    by simp
  then show "(\<exists>res. reconstructLocalized (pre @ Localized vals sz name path # post)
          (ls1 @ locale # ls2) fillMissing dl initialSize = Inr res) \<longleftrightarrow>
        (fillMissing \<longrightarrow> (\<exists>d. map_of vals dl = Some d)) \<and>
        (\<forall>l\<in>set (ls1 @ locale # ls2). firstLocalizedError fillMissing dl l (pre @ post) = None)"
    by (rule falsy_translation_returns)
next
  fix res
  assume ret: "reconstructLocalized (pre @ Localized vals sz name path # post)
      (ls1 @ locale # ls2) fillMissing dl initialSize = Inr res"
  assume fm: fillMissing
  from missing_translation_rendering [OF assms ret, THEN conjunct1, THEN mp, OF fm]
  show "\<exists>d. map_of vals dl = Some d \<and>
             map_of (l_result res) locale =
               Some \<lparr>source = concat (map (localizedValue True dl locale) pre)
                        @ concat (map escapedUnicodeForm d)
                        @ concat (map (localizedValue True dl locale) post),
                     size_r = initialSize +
                       ((\<Sum>e\<leftarrow>pre. sizeDelta e (localizedValue True dl locale e))
                        + (int (length (concat (map escapedUnicodeForm d))) - sz)
                        + (\<Sum>e\<leftarrow>post. sizeDelta e (localizedValue True dl locale e)))\<rparr>"
    and "l_issues res = []"
    by (rule conjunct1, rule conjunct2)
next
  fix res
  assume ret: "reconstructLocalized (pre @ Localized vals sz name path # post)
      (ls1 @ locale # ls2) fillMissing dl initialSize = Inr res"
  assume fm: "\<not> fillMissing"
  from missing_translation_rendering [OF assms ret, THEN conjunct2, THEN mp, OF fm]
  show "map_of (l_result res) locale =
            Some \<lparr>source = concat (map (localizedValue False dl locale) pre)
                     @ ''-- MISSING STRING --''
                     @ concat (map (localizedValue False dl locale) post),
                  size_r = initialSize +
                    ((\<Sum>e\<leftarrow>pre. sizeDelta e (localizedValue False dl locale e))
                     + (20 - sz)
                     + (\<Sum>e\<leftarrow>post. sizeDelta e (localizedValue False dl locale e)))\<rparr>"
    and "l_issues res =
            concat (map (\<lambda>l. concat (map (missingStringIssues False l)
                                     (pre @ Localized vals sz name path # post))) ls1)
            @ (concat (map (missingStringIssues False locale) pre)
               @ [''The string '' @ [CHR 0x22] @ name @ [CHR 0x22] @ '' in '' @ [CHR 0x22] @ path
                    @ [CHR 0x22] @ '' is missing in the locale '' @ locale]
               @ concat (map (missingStringIssues False locale) post))
            @ concat (map (\<lambda>l. concat (map (missingStringIssues False l)
                                       (pre @ Localized vals sz name path # post))) ls2)"
    by (rule conjunct1, rule conjunct2)
qed

text \<open>With no value for the default locale either, nothing is substituted: the call throws.\<close>

theorem missing_translation_policy_counterexample:
  "reconstructLocalized [Localized [] 9 ''greeting'' ''strings.loc.json''] [''es-es''] True
     ''en-us'' 100 = Inl TypeError"
  by (simp add: reconstructLocalized_def)

lemma example_fill:
  "reconstructLocalized
     ([Static ''a''] @ Localized helloValues 9 ''greeting'' ''strings.loc.json'' # [Static ''b''])
     ([''en-us''] @ ''es-es'' # []) True ''en-us'' 100 = Inr exampleFillResult"
  by (simp add: reconstructLocalized_def escapeQuotes_def quotemark_def apostrophe_def
      helloValues_def exampleFillResult_def)

lemma example_no_fill:
  "reconstructLocalized
     ([Static ''a''] @ Localized helloValues 9 ''greeting'' ''strings.loc.json'' # [Static ''b''])
     ([''en-us''] @ ''es-es'' # []) False ''en-us'' 100 = Inr exampleNoFillResult"
  by (simp add: reconstructLocalized_def escapeQuotes_def quotemark_def apostrophe_def
      missingStringSentinel_def missingIssue_def helloValues_def exampleNoFillResult_def)

theorem missing_translation_policy_witness:
  "map_of helloValues ''es-es'' = None \<and>
   reconstructLocalized
     ([Static ''a''] @ Localized helloValues 9 ''greeting'' ''strings.loc.json'' # [Static ''b''])
     ([''en-us''] @ ''es-es'' # []) True ''en-us'' 100 = Inr exampleFillResult \<and>
   reconstructLocalized
     ([Static ''a''] @ Localized helloValues 9 ''greeting'' ''strings.loc.json'' # [Static ''b''])
     ([''en-us''] @ ''es-es'' # []) False ''en-us'' 100 = Inr exampleNoFillResult \<and>
   (\<exists>res. reconstructLocalized
      ([Static ''a''] @ Localized helloValues 9 ''greeting'' ''strings.loc.json'' # [Static ''b''])
      ([''en-us''] @ ''es-es'' # []) True ''en-us'' 100 = Inr res) \<and>
   (\<exists>d. map_of helloValues ''en-us'' = Some d \<and>
      map_of (l_result exampleFillResult) ''es-es'' =
        Some \<lparr>source = concat (map (localizedValue True ''en-us'' ''es-es'') [Static ''a''])
                 @ concat (map escapedUnicodeForm d)
                 @ concat (map (localizedValue True ''en-us'' ''es-es'') [Static ''b'']),
              size_r = 100 +
                ((\<Sum>e\<leftarrow>[Static ''a'']. sizeDelta e (localizedValue True ''en-us'' ''es-es'' e))
                 + (int (length (concat (map escapedUnicodeForm d))) - 9)
                 + (\<Sum>e\<leftarrow>[Static ''b'']. sizeDelta e (localizedValue True ''en-us'' ''es-es'' e)))\<rparr>) \<and>
   l_issues exampleFillResult = [] \<and>
   map_of (l_result exampleNoFillResult) ''es-es'' =
     Some \<lparr>source = concat (map (localizedValue False ''en-us'' ''es-es'') [Static ''a''])
              @ ''-- MISSING STRING --''
              @ concat (map (localizedValue False ''en-us'' ''es-es'') [Static ''b'']),
           size_r = 100 +
             ((\<Sum>e\<leftarrow>[Static ''a'']. sizeDelta e (localizedValue False ''en-us'' ''es-es'' e))
              + (20 - 9)
              + (\<Sum>e\<leftarrow>[Static ''b'']. sizeDelta e (localizedValue False ''en-us'' ''es-es'' e)))\<rparr> \<and>
   l_issues exampleNoFillResult =
     concat (map (\<lambda>l. concat (map (missingStringIssues False l)
         ([Static ''a''] @ Localized helloValues 9 ''greeting'' ''strings.loc.json''
            # [Static ''b'']))) [''en-us''])
     @ (concat (map (missingStringIssues False ''es-es'') [Static ''a''])
        @ [''The string '' @ [CHR 0x22] @ ''greeting'' @ [CHR 0x22] @ '' in '' @ [CHR 0x22]
             @ ''strings.loc.json'' @ [CHR 0x22] @ '' is missing in the locale '' @ ''es-es'']
        @ concat (map (missingStringIssues False ''es-es'') [Static ''b'']))
     @ concat (map (\<lambda>l. concat (map (missingStringIssues False l)
         ([Static ''a''] @ Localized helloValues 9 ''greeting'' ''strings.loc.json''
            # [Static ''b'']))) [])"
proof -
  have h: "map_of helloValues ''es-es'' = None"
    by (simp add: helloValues_def)
  have nf: "\<not> False"
    by simp
  have ret: "\<exists>res. reconstructLocalized
      ([Static ''a''] @ Localized helloValues 9 ''greeting'' ''strings.loc.json'' # [Static ''b''])
      ([''en-us''] @ ''es-es'' # []) True ''en-us'' 100 = Inr res"
    by (rule missing_translation_policy [OF h, THEN conjunct1, THEN iffD2])
      (simp add: helloValues_def)
  note fill = missing_translation_policy [OF h, THEN conjunct2, THEN spec, THEN mp,
      OF example_fill, THEN conjunct1, THEN mp, OF TrueI]
  note nofill = missing_translation_policy [OF h, THEN conjunct2, THEN spec, THEN mp,
      OF example_no_fill, THEN conjunct2, THEN mp, OF nf]
  show ?thesis
    by (intro conjI h example_fill example_no_fill ret fill [THEN conjunct1]
        fill [THEN conjunct2] nofill [THEN conjunct1] nofill [THEN conjunct2])
qed

text \<open>
  Claim C4. In every result of the localized reconstructor, the text of a requested locale has,
  at the place of a localized element, the value chosen for it (the value of the locale, the
  value of the default locale or the sentinel) with every quotation mark and every apostrophe
  replaced by its escaped Unicode form. Neither character occurs in that part of the text, and
  a quotation mark or an apostrophe anywhere in the text of the locale comes from an element of
  the plan that is not a localized one.
\<close>

theorem localized_values_are_escaped:
  assumes "locale \<in> set locales"
    and "reconstructLocalized (pre @ Localized vals sz name path # post) locales fillMissing dl
           initialSize = Inr res"
  shows
    "\<exists>r v. map_of (l_result res) locale = Some r \<and>
       (map_of vals locale = Some v \<or> map_of vals dl = Some v \<or> v = ''-- MISSING STRING --'') \<and>
       source r = concat (map (localizedValue fillMissing dl locale) pre)
                    @ concat (map escapedUnicodeForm v)
                    @ concat (map (localizedValue fillMissing dl locale) post) \<and>
       CHR 0x22 \<notin> set (concat (map escapedUnicodeForm v)) \<and>
       CHR 0x27 \<notin> set (concat (map escapedUnicodeForm v)) \<and>
       (\<forall>c. (c = CHR 0x22 \<or> c = CHR 0x27) \<and> c \<in> set (source r) \<longrightarrow>
          (\<exists>e\<in>set (pre @ post). \<not> is_Localized e \<and>
             c \<in> set (localizedValue fillMissing dl locale e)))"
proof -
  let ?el = "Localized vals sz name path"
  let ?r = "\<lparr>source = concat (map (localizedValue fillMissing dl locale) (pre @ ?el # post)),
       size_r = initialSize +
         (\<Sum>e\<leftarrow>pre @ ?el # post. sizeDelta e (localizedValue fillMissing dl locale e))\<rparr>"
  note ok = reconstructLocalized_closed(2) [OF assms(2) assms(1)]
  note out = reconstructLocalized_closed(3) [OF assms(2) assms(1)]
  from ok have el_ok: "firstLocalizedError fillMissing dl locale [?el] = None"
    by (rule firstLocalizedError_middle)
  have "\<exists>v. (map_of vals locale = Some v \<or> map_of vals dl = Some v \<or> v = ''-- MISSING STRING --'') \<and>
      localizedValue fillMissing dl locale ?el = concat (map escapedUnicodeForm v)"
  proof (cases "\<exists>c cs. map_of vals locale = Some (c # cs)")
    case True
    then obtain c cs where p: "map_of vals locale = Some (c # cs)"
      by blast
    from p have "localizedValue fillMissing dl locale ?el = concat (map escapedUnicodeForm (c # cs))"
      by (rule localizedValue_present)
    with p show ?thesis
      by (intro exI [of _ "c # cs"] conjI disjI1)
  next
    case False
    have f: "map_of vals locale = None \<or> map_of vals locale = Some []"
    proof (cases "map_of vals locale")
      case None
      then show ?thesis ..
    next
      case (Some w)
      with False show ?thesis
        by (cases w) simp_all
    qed
    show ?thesis
    proof (cases fillMissing)
      case True
      then have fm: "fillMissing = True"
        by simp
      from f el_ok obtain d where d: "map_of vals dl = Some d"
        unfolding fm by (cases "map_of vals dl") auto
      from f d have "localizedValue True dl locale ?el = concat (map escapedUnicodeForm d)"
        by (rule localizedValue_fill)
      with d show ?thesis
        unfolding fm by (intro exI [of _ d] conjI disjI2 disjI1)
    next
      case False
      then have fm: "fillMissing = False"
        by simp
      from f have "localizedValue False dl locale ?el =
          concat (map escapedUnicodeForm ''-- MISSING STRING --'')"
        by (rule localizedValue_sentinel)
      then show ?thesis
        unfolding fm by (intro exI [of _ "''-- MISSING STRING --''"] conjI disjI2 refl)
    qed
  qed
  then obtain v where
    v: "map_of vals locale = Some v \<or> map_of vals dl = Some v \<or> v = ''-- MISSING STRING --''" and
    lv: "localizedValue fillMissing dl locale ?el = concat (map escapedUnicodeForm v)"
    by blast
  from escapeQuotes_clean [of v, unfolded escapeQuotes_concat quotemark_def apostrophe_def]
  have clean:
    "CHR 0x22 \<notin> set (concat (map escapedUnicodeForm v))"
    "CHR 0x27 \<notin> set (concat (map escapedUnicodeForm v))"
    by simp_all
  have src: "source ?r = concat (map (localizedValue fillMissing dl locale) pre)
      @ concat (map escapedUnicodeForm v)
      @ concat (map (localizedValue fillMissing dl locale) post)"
    by (simp add: lv del: localizedValue.simps)
  have origin: "\<forall>c. (c = CHR 0x22 \<or> c = CHR 0x27) \<and> c \<in> set (source ?r) \<longrightarrow>
      (\<exists>e\<in>set (pre @ post). \<not> is_Localized e \<and>
         c \<in> set (localizedValue fillMissing dl locale e))"
  proof (intro allI impI)
    fix c
    assume c: "(c = CHR 0x22 \<or> c = CHR 0x27) \<and> c \<in> set (source ?r)"
    with src have "c \<in> set (concat (map (localizedValue fillMissing dl locale) pre)
        @ concat (map escapedUnicodeForm v)
        @ concat (map (localizedValue fillMissing dl locale) post))"
      by (simp only:)
    with clean c obtain e where e: "e \<in> set (pre @ post)"
      "c \<in> set (localizedValue fillMissing dl locale e)"
      by (auto simp del: localizedValue.simps)
    have "\<not> is_Localized e"
    proof
      assume "is_Localized e"
      then obtain vals' sz' name' path' where "e = Localized vals' sz' name' path'"
        by (cases e) auto
      with e(2) c localizedValue_clean [of fillMissing dl "locale" vals' sz' name' path']
      show False by (auto simp del: localizedValue.simps)
    qed
    with e show "\<exists>e\<in>set (pre @ post). \<not> is_Localized e \<and>
        c \<in> set (localizedValue fillMissing dl locale e)"
      by blast
  qed
  show ?thesis
    by (rule exI [of _ ?r], rule exI [of _ v]) (intro conjI out v src clean origin)
qed

lemma example_escaped:
  "reconstructLocalized
     ([Static ''x = ''] @ Localized [(''en-us'', quotedValue)] 9 ''greeting'' ''strings.loc.json''
        # [Static '';''])
     [''en-us''] False ''en-us'' 100 = Inr exampleEscapedResult"
  by (simp add: reconstructLocalized_def quotedValue_def escapeQuotes_def quotemark_def
      apostrophe_def escapedQuotemark_def escapedApostrophe_def backslash_def
      exampleEscapedResult_def)

theorem localized_values_are_escaped_witness:
  "''en-us'' \<in> set [''en-us''] \<and>
   reconstructLocalized
     ([Static ''x = ''] @ Localized [(''en-us'', quotedValue)] 9 ''greeting'' ''strings.loc.json''
        # [Static '';''])
     [''en-us''] False ''en-us'' 100 = Inr exampleEscapedResult \<and>
   (\<exists>r v.
      map_of (l_result exampleEscapedResult) ''en-us'' = Some r \<and>
      (map_of [(''en-us'', quotedValue)] ''en-us'' = Some v \<or>
       map_of [(''en-us'', quotedValue)] ''en-us'' = Some v \<or> v = ''-- MISSING STRING --'') \<and>
      source r = concat (map (localizedValue False ''en-us'' ''en-us'') [Static ''x = ''])
                   @ concat (map escapedUnicodeForm v)
                   @ concat (map (localizedValue False ''en-us'' ''en-us'') [Static '';'']) \<and>
      CHR 0x22 \<notin> set (concat (map escapedUnicodeForm v)) \<and>
      CHR 0x27 \<notin> set (concat (map escapedUnicodeForm v)) \<and>
      (\<forall>c. (c = CHR 0x22 \<or> c = CHR 0x27) \<and> c \<in> set (source r) \<longrightarrow>
         (\<exists>e\<in>set ([Static ''x = ''] @ [Static '';'']). \<not> is_Localized e \<and>
            c \<in> set (localizedValue False ''en-us'' ''en-us'' e))))"
proof -
  have mem: "''en-us'' \<in> set [''en-us'']"
    by simp
  show ?thesis
    by (intro conjI mem example_escaped localized_values_are_escaped [OF mem example_escaped])
qed

lemma elements_localized_cong:
  assumes "\<And>st. reconstructLocalizedElement fm dl l st e = reconstructLocalizedElement fm dl l st e'"
  shows "reconstructLocalizedElements fm dl l st (pre @ e # post) =
         reconstructLocalizedElements fm dl l st (pre @ e' # post)"
proof (induction pre arbitrary: st)
  case Nil
  show ?case by (simp add: assms)
next
  case (Cons a pre)
  show ?case by (simp add: Cons split: sum.splits)
qed

lemma locales_localized_cong:
  assumes "\<And>l st. reconstructLocalizedElements fm dl l st s1 =
      reconstructLocalizedElements fm dl l st s2"
  shows "reconstructLocalizedLocales s1 fm dl initialSize acc locales =
         reconstructLocalizedLocales s2 fm dl initialSize acc locales"
proof (induction locales arbitrary: acc)
  case Nil
  show ?case by simp
next
  case (Cons lc rest)
  show ?case by (simp add: assms Cons split: sum.splits)
qed

lemma empty_entry_as_missing:
  assumes "map_of vals locale = Some []" and "dl \<noteq> locale"
  shows "reconstructLocalizedElement fm dl l st (Localized vals sz name path) =
         reconstructLocalizedElement fm dl l st (Localized (AList.delete locale vals) sz name path)"
proof (cases "l = locale")
  case True
  with assms show ?thesis
    by (simp add: delete_conv')
next
  case False
  with assms show ?thesis
    by (simp add: delete_conv')
qed

lemma empty_translation_rendering:
  assumes "map_of vals locale = Some []"
    and "reconstructLocalized (pre @ Localized vals sz name path # post) (ls1 @ locale # ls2)
           fillMissing dl initialSize = Inr res"
  shows
    "(fillMissing \<longrightarrow>
        (\<exists>d. map_of vals dl = Some d \<and>
           map_of (l_result res) locale =
             Some \<lparr>source = concat (map (localizedValue True dl locale) pre)
                      @ concat (map escapedUnicodeForm d)
                      @ concat (map (localizedValue True dl locale) post),
                   size_r = initialSize +
                     ((\<Sum>e\<leftarrow>pre. sizeDelta e (localizedValue True dl locale e))
                      + (int (length (concat (map escapedUnicodeForm d))) - sz)
                      + (\<Sum>e\<leftarrow>post. sizeDelta e (localizedValue True dl locale e)))\<rparr>) \<and>
        l_issues res = []) \<and>
     (\<not> fillMissing \<longrightarrow>
        map_of (l_result res) locale =
          Some \<lparr>source = concat (map (localizedValue False dl locale) pre)
                   @ ''-- MISSING STRING --''
                   @ concat (map (localizedValue False dl locale) post),
                size_r = initialSize +
                  ((\<Sum>e\<leftarrow>pre. sizeDelta e (localizedValue False dl locale e))
                   + (20 - sz)
                   + (\<Sum>e\<leftarrow>post. sizeDelta e (localizedValue False dl locale e)))\<rparr> \<and>
        l_issues res =
          concat (map (\<lambda>l. concat (map (missingStringIssues False l)
                                   (pre @ Localized vals sz name path # post))) ls1)
          @ (concat (map (missingStringIssues False locale) pre)
             @ [''The string '' @ [CHR 0x22] @ name @ [CHR 0x22] @ '' in '' @ [CHR 0x22] @ path
                  @ [CHR 0x22] @ '' is missing in the locale '' @ locale]
             @ concat (map (missingStringIssues False locale) post))
          @ concat (map (\<lambda>l. concat (map (missingStringIssues False l)
                                     (pre @ Localized vals sz name path # post))) ls2))"
proof -
  let ?el = "Localized vals sz name path"
  have mem: "locale \<in> set (ls1 @ locale # ls2)"
    by simp
  note iss = reconstructLocalized_closed(1) [OF assms(2)]
  note ok = reconstructLocalized_closed(2) [OF assms(2) mem]
  note out = reconstructLocalized_closed(3) [OF assms(2) mem]
  from ok have el_ok: "firstLocalizedError fillMissing dl locale [?el] = None"
    by (rule firstLocalizedError_middle)
  show ?thesis
  proof (intro conjI impI)
    assume fm: fillMissing
    with el_ok assms(1) obtain d where d: "map_of vals dl = Some d"
      by (cases "map_of vals dl") auto
    from out fm d assms(1)
    show "\<exists>d. map_of vals dl = Some d \<and>
           map_of (l_result res) locale =
             Some \<lparr>source = concat (map (localizedValue True dl locale) pre)
                      @ concat (map escapedUnicodeForm d)
                      @ concat (map (localizedValue True dl locale) post),
                   size_r = initialSize +
                     ((\<Sum>e\<leftarrow>pre. sizeDelta e (localizedValue True dl locale e))
                      + (int (length (concat (map escapedUnicodeForm d))) - sz)
                      + (\<Sum>e\<leftarrow>post. sizeDelta e (localizedValue True dl locale e)))\<rparr>"
      by (intro exI [of _ d]) simp
    from fm have "fillMissing = True"
      by simp
    with iss show "l_issues res = []"
      by (simp only: no_issues_fill)
  next
    assume fm: "\<not> fillMissing"
    from out fm assms(1)
    show "map_of (l_result res) locale =
          Some \<lparr>source = concat (map (localizedValue False dl locale) pre)
                   @ ''-- MISSING STRING --''
                   @ concat (map (localizedValue False dl locale) post),
                size_r = initialSize +
                  ((\<Sum>e\<leftarrow>pre. sizeDelta e (localizedValue False dl locale e))
                   + (20 - sz)
                   + (\<Sum>e\<leftarrow>post. sizeDelta e (localizedValue False dl locale e)))\<rparr>"
      by (simp add: escapedUnicodeForm_def)
    from iss fm assms(1)
    show "l_issues res =
          concat (map (\<lambda>l. concat (map (missingStringIssues False l) (pre @ ?el # post))) ls1)
          @ (concat (map (missingStringIssues False locale) pre)
             @ [''The string '' @ [CHR 0x22] @ name @ [CHR 0x22] @ '' in '' @ [CHR 0x22] @ path
                  @ [CHR 0x22] @ '' is missing in the locale '' @ locale]
             @ concat (map (missingStringIssues False locale) post))
          @ concat (map (\<lambda>l. concat (map (missingStringIssues False l) (pre @ ?el # post))) ls2)"
      by simp
  qed
qed

text \<open>
  Claim C9, as amended. Take a localized element of a plan whose value for a requested locale is
  the empty string. It is treated as an element without a value for the locale. The
  reconstructor returns exactly when no other element throws for a requested locale and, if
  \<open>fillMissing\<close> is set, the default locale has a value for the string. In every result it
  returns: if \<open>fillMissing\<close> is set, the text of the locale has the value of the default locale,
  in escaped form, at the place of the element, and no issue is recorded; if \<open>fillMissing\<close> is
  not set, the text has the sentinel \<^verbatim>\<open>-- MISSING STRING --\<close> there and the issues hold the
  missing-string issue of the element and the locale. When the locale is not the default one,
  the call gives the same as for the element with the entry of the locale removed. The claim as
  written also covers a default locale without a value, where the reconstructor throws, and one
  whose value is empty, which is rendered as the empty string.
\<close>

theorem empty_translation_is_missing:
  assumes "map_of vals locale = Some []"
  shows
    "((\<exists>res. reconstructLocalized (pre @ Localized vals sz name path # post)
          (ls1 @ locale # ls2) fillMissing dl initialSize = Inr res) \<longleftrightarrow>
        (fillMissing \<longrightarrow> (\<exists>d. map_of vals dl = Some d)) \<and>
        (\<forall>l\<in>set (ls1 @ locale # ls2). firstLocalizedError fillMissing dl l (pre @ post) = None)) \<and>
     (\<forall>res. reconstructLocalized (pre @ Localized vals sz name path # post)
          (ls1 @ locale # ls2) fillMissing dl initialSize = Inr res \<longrightarrow>
       (fillMissing \<longrightarrow>
          (\<exists>d. map_of vals dl = Some d \<and>
             map_of (l_result res) locale =
               Some \<lparr>source = concat (map (localizedValue True dl locale) pre)
                        @ concat (map escapedUnicodeForm d)
                        @ concat (map (localizedValue True dl locale) post),
                     size_r = initialSize +
                       ((\<Sum>e\<leftarrow>pre. sizeDelta e (localizedValue True dl locale e))
                        + (int (length (concat (map escapedUnicodeForm d))) - sz)
                        + (\<Sum>e\<leftarrow>post. sizeDelta e (localizedValue True dl locale e)))\<rparr>) \<and>
          l_issues res = []) \<and>
       (\<not> fillMissing \<longrightarrow>
          map_of (l_result res) locale =
            Some \<lparr>source = concat (map (localizedValue False dl locale) pre)
                     @ ''-- MISSING STRING --''
                     @ concat (map (localizedValue False dl locale) post),
                  size_r = initialSize +
                    ((\<Sum>e\<leftarrow>pre. sizeDelta e (localizedValue False dl locale e))
                     + (20 - sz)
                     + (\<Sum>e\<leftarrow>post. sizeDelta e (localizedValue False dl locale e)))\<rparr> \<and>
          l_issues res =
            concat (map (\<lambda>l. concat (map (missingStringIssues False l)
                                     (pre @ Localized vals sz name path # post))) ls1)
            @ (concat (map (missingStringIssues False locale) pre)
               @ [''The string '' @ [CHR 0x22] @ name @ [CHR 0x22] @ '' in '' @ [CHR 0x22] @ path
                    @ [CHR 0x22] @ '' is missing in the locale '' @ locale]
               @ concat (map (missingStringIssues False locale) post))
            @ concat (map (\<lambda>l. concat (map (missingStringIssues False l)
                                       (pre @ Localized vals sz name path # post))) ls2))) \<and>
     (dl \<noteq> locale \<longrightarrow>
        reconstructLocalized (pre @ Localized vals sz name path # post)
          (ls1 @ locale # ls2) fillMissing dl initialSize =
        reconstructLocalized (pre @ Localized (AList.delete locale vals) sz name path # post)
          (ls1 @ locale # ls2) fillMissing dl initialSize)"
proof (intro conjI allI impI)
  from assms have "map_of vals locale = None \<or> map_of vals locale = Some []"
    by simp
  then show "(\<exists>res. reconstructLocalized (pre @ Localized vals sz name path # post)
          (ls1 @ locale # ls2) fillMissing dl initialSize = Inr res) \<longleftrightarrow>
        (fillMissing \<longrightarrow> (\<exists>d. map_of vals dl = Some d)) \<and>
        (\<forall>l\<in>set (ls1 @ locale # ls2). firstLocalizedError fillMissing dl l (pre @ post) = None)"
    by (rule falsy_translation_returns)
next
  fix res
  assume ret: "reconstructLocalized (pre @ Localized vals sz name path # post)
      (ls1 @ locale # ls2) fillMissing dl initialSize = Inr res"
  assume fm: fillMissing
  from empty_translation_rendering [OF assms ret, THEN conjunct1, THEN mp, OF fm]
  show "\<exists>d. map_of vals dl = Some d \<and>
             map_of (l_result res) locale =
               Some \<lparr>source = concat (map (localizedValue True dl locale) pre)
                        @ concat (map escapedUnicodeForm d)
                        @ concat (map (localizedValue True dl locale) post),
                     size_r = initialSize +
                       ((\<Sum>e\<leftarrow>pre. sizeDelta e (localizedValue True dl locale e))
                        + (int (length (concat (map escapedUnicodeForm d))) - sz)
                        + (\<Sum>e\<leftarrow>post. sizeDelta e (localizedValue True dl locale e)))\<rparr>"
    and "l_issues res = []"
    by (rule conjunct1, rule conjunct2)
next
  fix res
  assume ret: "reconstructLocalized (pre @ Localized vals sz name path # post)
      (ls1 @ locale # ls2) fillMissing dl initialSize = Inr res"
  assume fm: "\<not> fillMissing"
  from empty_translation_rendering [OF assms ret, THEN conjunct2, THEN mp, OF fm]
  show "map_of (l_result res) locale =
            Some \<lparr>source = concat (map (localizedValue False dl locale) pre)
                     @ ''-- MISSING STRING --''
                     @ concat (map (localizedValue False dl locale) post),
                  size_r = initialSize +
                    ((\<Sum>e\<leftarrow>pre. sizeDelta e (localizedValue False dl locale e))
                     + (20 - sz)
                     + (\<Sum>e\<leftarrow>post. sizeDelta e (localizedValue False dl locale e)))\<rparr>"
    and "l_issues res =
            concat (map (\<lambda>l. concat (map (missingStringIssues False l)
                                     (pre @ Localized vals sz name path # post))) ls1)
            @ (concat (map (missingStringIssues False locale) pre)
               @ [''The string '' @ [CHR 0x22] @ name @ [CHR 0x22] @ '' in '' @ [CHR 0x22] @ path
                    @ [CHR 0x22] @ '' is missing in the locale '' @ locale]
               @ concat (map (missingStringIssues False locale) post))
            @ concat (map (\<lambda>l. concat (map (missingStringIssues False l)
                                       (pre @ Localized vals sz name path # post))) ls2)"
    by (rule conjunct1, rule conjunct2)
next
  let ?el = "Localized vals sz name path"
  assume "dl \<noteq> locale"
  with assms have "\<And>l st. reconstructLocalizedElement fillMissing dl l st ?el =
      reconstructLocalizedElement fillMissing dl l st
        (Localized (AList.delete locale vals) sz name path)"
    by (rule empty_entry_as_missing)
  then have "\<And>l st. reconstructLocalizedElements fillMissing dl l st (pre @ ?el # post) =
      reconstructLocalizedElements fillMissing dl l st
        (pre @ Localized (AList.delete locale vals) sz name path # post)"
    by (rule elements_localized_cong)
  then show "reconstructLocalized (pre @ ?el # post) (ls1 @ locale # ls2) fillMissing dl
        initialSize =
      reconstructLocalized (pre @ Localized (AList.delete locale vals) sz name path # post)
        (ls1 @ locale # ls2) fillMissing dl initialSize"
    unfolding reconstructLocalized_def by (rule locales_localized_cong)
qed

text \<open>With an empty value for the locale and none for the default locale the call throws; with
  an empty value for both, the empty string is rendered.\<close>

theorem empty_translation_is_missing_counterexample:
  "map_of [(''es-es'', [])] ''es-es'' = Some [] \<and>
   reconstructLocalized [Localized [(''es-es'', [])] 9 ''greeting'' ''strings.loc.json'']
     [''es-es''] True ''en-us'' 100 = Inl TypeError \<and>
   map_of [(''en-us'', []), (''es-es'', [])] ''es-es'' = Some [] \<and>
   reconstructLocalized
     [Static ''a'', Localized [(''en-us'', []), (''es-es'', [])] 9 ''greeting'' ''strings.loc.json'',
      Static ''b'']
     [''es-es''] True ''en-us'' 100 =
     Inr \<lparr>l_result = [(''es-es'', \<lparr>source = ''ab'', size_r = 91\<rparr>)], l_issues = []\<rparr>"
  by (simp add: reconstructLocalized_def escapeQuotes_def)

lemma example_empty_fill:
  "reconstructLocalized
     ([Static ''a''] @ Localized emptySpanishValues 9 ''greeting'' ''strings.loc.json''
        # [Static ''b''])
     ([''en-us''] @ ''es-es'' # []) True ''en-us'' 100 = Inr exampleFillResult"
  by (simp add: reconstructLocalized_def escapeQuotes_def quotemark_def apostrophe_def
      emptySpanishValues_def exampleFillResult_def)

lemma example_empty_no_fill:
  "reconstructLocalized
     ([Static ''a''] @ Localized emptySpanishValues 9 ''greeting'' ''strings.loc.json''
        # [Static ''b''])
     ([''en-us''] @ ''es-es'' # []) False ''en-us'' 100 = Inr exampleNoFillResult"
  by (simp add: reconstructLocalized_def escapeQuotes_def quotemark_def apostrophe_def
      missingStringSentinel_def missingIssue_def emptySpanishValues_def exampleNoFillResult_def)

theorem empty_translation_is_missing_witness:
  "map_of emptySpanishValues ''es-es'' = Some [] \<and>
   ''en-us'' \<noteq> ''es-es'' \<and>
   reconstructLocalized
     ([Static ''a''] @ Localized emptySpanishValues 9 ''greeting'' ''strings.loc.json''
        # [Static ''b''])
     ([''en-us''] @ ''es-es'' # []) True ''en-us'' 100 = Inr exampleFillResult \<and>
   reconstructLocalized
     ([Static ''a''] @ Localized emptySpanishValues 9 ''greeting'' ''strings.loc.json''
        # [Static ''b''])
     ([''en-us''] @ ''es-es'' # []) False ''en-us'' 100 = Inr exampleNoFillResult \<and>
   (\<exists>res. reconstructLocalized
      ([Static ''a''] @ Localized emptySpanishValues 9 ''greeting'' ''strings.loc.json''
         # [Static ''b''])
      ([''en-us''] @ ''es-es'' # []) True ''en-us'' 100 = Inr res) \<and>
   (\<exists>d. map_of emptySpanishValues ''en-us'' = Some d \<and>
      map_of (l_result exampleFillResult) ''es-es'' =
        Some \<lparr>source = concat (map (localizedValue True ''en-us'' ''es-es'') [Static ''a''])
                 @ concat (map escapedUnicodeForm d)
                 @ concat (map (localizedValue True ''en-us'' ''es-es'') [Static ''b'']),
              size_r = 100 +
                ((\<Sum>e\<leftarrow>[Static ''a'']. sizeDelta e (localizedValue True ''en-us'' ''es-es'' e))
                 + (int (length (concat (map escapedUnicodeForm d))) - 9)
                 + (\<Sum>e\<leftarrow>[Static ''b'']. sizeDelta e (localizedValue True ''en-us'' ''es-es'' e)))\<rparr>) \<and>
   l_issues exampleFillResult = [] \<and>
   map_of (l_result exampleNoFillResult) ''es-es'' =
     Some \<lparr>source = concat (map (localizedValue False ''en-us'' ''es-es'') [Static ''a''])
              @ ''-- MISSING STRING --''
              @ concat (map (localizedValue False ''en-us'' ''es-es'') [Static ''b'']),
           size_r = 100 +
             ((\<Sum>e\<leftarrow>[Static ''a'']. sizeDelta e (localizedValue False ''en-us'' ''es-es'' e))
              + (20 - 9)
              + (\<Sum>e\<leftarrow>[Static ''b'']. sizeDelta e (localizedValue False ''en-us'' ''es-es'' e)))\<rparr> \<and>
   l_issues exampleNoFillResult =
     concat (map (\<lambda>l. concat (map (missingStringIssues False l)
         ([Static ''a''] @ Localized emptySpanishValues 9 ''greeting'' ''strings.loc.json''
            # [Static ''b'']))) [''en-us''])
     @ (concat (map (missingStringIssues False ''es-es'') [Static ''a''])
        @ [''The string '' @ [CHR 0x22] @ ''greeting'' @ [CHR 0x22] @ '' in '' @ [CHR 0x22]
             @ ''strings.loc.json'' @ [CHR 0x22] @ '' is missing in the locale '' @ ''es-es'']
        @ concat (map (missingStringIssues False ''es-es'') [Static ''b'']))
     @ concat (map (\<lambda>l. concat (map (missingStringIssues False l)
         ([Static ''a''] @ Localized emptySpanishValues 9 ''greeting'' ''strings.loc.json''
            # [Static ''b'']))) []) \<and>
   reconstructLocalized
     ([Static ''a''] @ Localized emptySpanishValues 9 ''greeting'' ''strings.loc.json''
        # [Static ''b''])
     ([''en-us''] @ ''es-es'' # []) False ''en-us'' 100 =
   reconstructLocalized
     ([Static ''a''] @ Localized (AList.delete ''es-es'' emptySpanishValues) 9 ''greeting''
        ''strings.loc.json'' # [Static ''b''])
     ([''en-us''] @ ''es-es'' # []) False ''en-us'' 100"
proof -
  have h: "map_of emptySpanishValues ''es-es'' = Some []"
    by (simp add: emptySpanishValues_def)
  have ne: "''en-us'' \<noteq> ''es-es''"
    by simp
  have nf: "\<not> False"
    by simp
  have ret: "\<exists>res. reconstructLocalized
      ([Static ''a''] @ Localized emptySpanishValues 9 ''greeting'' ''strings.loc.json''
         # [Static ''b''])
      ([''en-us''] @ ''es-es'' # []) True ''en-us'' 100 = Inr res"
    by (rule empty_translation_is_missing [OF h, THEN conjunct1, THEN iffD2])
      (simp add: emptySpanishValues_def)
  note fill = empty_translation_is_missing [OF h, THEN conjunct2, THEN conjunct1, THEN spec,
      THEN mp, OF example_empty_fill, THEN conjunct1, THEN mp, OF TrueI]
  note nofill = empty_translation_is_missing [OF h, THEN conjunct2, THEN conjunct1, THEN spec,
      THEN mp, OF example_empty_no_fill, THEN conjunct2, THEN mp, OF nf]
  have same: "reconstructLocalized
     ([Static ''a''] @ Localized emptySpanishValues 9 ''greeting'' ''strings.loc.json''
        # [Static ''b''])
     ([''en-us''] @ ''es-es'' # []) False ''en-us'' 100 =
   reconstructLocalized
     ([Static ''a''] @ Localized (AList.delete ''es-es'' emptySpanishValues) 9 ''greeting''
        ''strings.loc.json'' # [Static ''b''])
     ([''en-us''] @ ''es-es'' # []) False ''en-us'' 100"
    by (rule empty_translation_is_missing [OF h, THEN conjunct2, THEN conjunct2, THEN mp, OF ne])
  show ?thesis
    by (intro conjI h ne example_empty_fill example_empty_no_fill ret fill [THEN conjunct1]
        fill [THEN conjunct2] nofill [THEN conjunct1] nofill [THEN conjunct2] same)
qed

lemma elements_localized_fail:
  assumes "\<And>st. \<exists>e. reconstructLocalizedElement fm dl locale st x = Inl e"
  shows "\<exists>e. reconstructLocalizedElements fm dl locale st (pre @ x # post) = Inl e"
proof (induction pre arbitrary: st)
  case Nil
  from assms [of st] show ?case by auto
next
  case (Cons a pre)
  show ?case
  proof (cases "reconstructLocalizedElement fm dl locale st a")
    case (Inl e)
    then show ?thesis by simp
  next
    case (Inr st1)
    with Cons [of st1] show ?thesis by simp
  qed
qed

lemma locales_fail:
  assumes "\<And>st. \<exists>e. reconstructLocalizedElements fm dl locale st series = Inl e"
    and "locale \<in> set locales"
  shows "\<exists>e. reconstructLocalizedLocales series fm dl initialSize acc locales = Inl e"
  using assms(2)
proof (induction locales arbitrary: acc)
  case Nil
  then show ?case by simp
next
  case (Cons lc rest)
  show ?case
  proof (cases "reconstructLocalizedElements fm dl lc
      \<lparr>reconstruction = [], sizeDiff = 0, issuesAcc = l_issues acc\<rparr> series")
    case (Inl e)
    then show ?thesis by simp
  next
    case (Inr st1)
    with assms(1) have "lc \<noteq> locale"
      by (metis Inl_Inr_False)
    with Cons.prems have "locale \<in> set rest" by simp
    from Cons.IH [OF this] Inr show ?thesis by simp
  qed
qed

text \<open>
  Claim C10, as amended. For every localized element whose value for the requested locale is
  absent or empty: with \<open>fillMissing\<close> true and no value for the default locale, the
  substitution throws a type error and so does the whole call for any plan that holds the element
  and any locale set that holds the locale; with \<open>fillMissing\<close> true and the empty string as the
  value of the default locale, the empty string is substituted and nothing is thrown or recorded;
  with \<open>fillMissing\<close> false the element renders as the sentinel with one issue.
\<close>

theorem fill_missing_without_default:
  assumes "\<not> truthy (map_of vals locale)"
  shows "(map_of vals dl = None \<longrightarrow>
            reconstructLocalizedElement True dl locale st (Localized vals sz name path) = Inl TypeError \<and>
            (locale \<in> set locales \<longrightarrow>
               (\<exists>e. reconstructLocalized (pre @ Localized vals sz name path # post) locales True dl
                      initialSize = Inl e))) \<and>
         (map_of vals dl = Some [] \<longrightarrow>
            reconstructLocalizedElement True dl locale st (Localized vals sz name path) =
              Inr \<lparr>reconstruction = reconstruction st @ [[]],
                   sizeDiff = sizeDiff st + (0 - sz),
                   issuesAcc = issuesAcc st\<rparr>) \<and>
         reconstructLocalizedElement False dl locale st (Localized vals sz name path) =
           Inr \<lparr>reconstruction = reconstruction st @ [''-- MISSING STRING --''],
                sizeDiff = sizeDiff st + (20 - sz),
                issuesAcc = issuesAcc st @ [missingIssue name path locale]\<rparr>"
proof (intro conjI impI)
  assume d: "map_of vals dl = None"
  with assms show "reconstructLocalizedElement True dl locale st (Localized vals sz name path) = Inl TypeError"
    by simp
  assume l: "locale \<in> set locales"
  have "\<And>st. \<exists>e. reconstructLocalizedElement True dl locale st (Localized vals sz name path) = Inl e"
    using assms d by simp
  then have "\<And>st. \<exists>e. reconstructLocalizedElements True dl locale st
      (pre @ Localized vals sz name path # post) = Inl e"
    by (rule elements_localized_fail)
  from locales_fail [OF this l]
  show "\<exists>e. reconstructLocalized (pre @ Localized vals sz name path # post) locales True dl
      initialSize = Inl e"
    by (simp add: reconstructLocalized_def)
next
  assume "map_of vals dl = Some []"
  with assms show "reconstructLocalizedElement True dl locale st (Localized vals sz name path) =
      Inr \<lparr>reconstruction = reconstruction st @ [[]], sizeDiff = sizeDiff st + (0 - sz),
           issuesAcc = issuesAcc st\<rparr>"
    by (simp add: escapeQuotes_def)
next
  from assms escapeQuotes_sentinel
  show "reconstructLocalizedElement False dl locale st (Localized vals sz name path) =
      Inr \<lparr>reconstruction = reconstruction st @ [''-- MISSING STRING --''],
           sizeDiff = sizeDiff st + (20 - sz),
           issuesAcc = issuesAcc st @ [missingIssue name path locale]\<rparr>"
    by simp (simp add: missingStringSentinel_def)
qed

text \<open>A default-locale value that is falsy but present, the empty string, does not throw.\<close>

theorem fill_missing_without_default_counterexample:
  "reconstructLocalized [Localized [(''en-us'', [])] 9 ''greeting'' ''strings.loc.json'']
     [''es-es''] True ''en-us'' 100 =
   Inr \<lparr>l_result = [(''es-es'', \<lparr>source = [], size_r = 91\<rparr>)], l_issues = []\<rparr>"
  by (simp add: reconstructLocalized_def escapeQuotes_def)

theorem fill_missing_without_default_witness:
  "\<not> truthy (map_of [] ''es-es'') \<and> map_of [] ''en-us'' = (None :: string option) \<and>
   ''es-es'' \<in> set [''en-us'', ''es-es''] \<and>
   reconstructLocalizedElement True ''en-us'' ''es-es''
     \<lparr>reconstruction = [], sizeDiff = 0, issuesAcc = []\<rparr>
     (Localized [] 9 ''greeting'' ''strings.loc.json'') = Inl TypeError \<and>
   (\<exists>e. reconstructLocalized
          ([Static ''a''] @ Localized [] 9 ''greeting'' ''strings.loc.json'' # [Static ''b''])
          [''en-us'', ''es-es''] True ''en-us'' 100 = Inl e) \<and>
   reconstructLocalizedElement False ''en-us'' ''es-es''
     \<lparr>reconstruction = [], sizeDiff = 0, issuesAcc = []\<rparr>
     (Localized [] 9 ''greeting'' ''strings.loc.json'') =
     Inr \<lparr>reconstruction = [''-- MISSING STRING --''], sizeDiff = 11,
          issuesAcc = [missingIssue ''greeting'' ''strings.loc.json'' ''es-es'']\<rparr>"
proof -
  have h: "\<not> truthy (map_of ([] :: ILocaleElementMap) ''es-es'')"
    by simp
  from fill_missing_without_default [OF h, of "''en-us''"
      "\<lparr>reconstruction = [], sizeDiff = 0, issuesAcc = []\<rparr>" 9 "''greeting''" "''strings.loc.json''"
      "[''en-us'', ''es-es'']" "[Static ''a'']" "[Static ''b'']" 100]
  show ?thesis
    by simp
qed

subsection \<open>The non-localized reconstructor\<close>




subsection \<open>The derived resolver\<close>

lemma set_setAdd: "set (setAdd x xs) = insert x (set xs)"
  by (auto simp: setAdd_def)

lemma set_partitionChunkIds:
  "partitionChunkIds cs (w, wo) = (w', wo') \<Longrightarrow>
     set w' = set w \<union> id' ` {c \<in> set cs. mark c} \<and>
     set wo' = set wo \<union> id' ` {c \<in> set cs. \<not> mark c}"
proof (induction cs arbitrary: w wo)
  case Nil
  then show ?case by simp
next
  case (Cons c cs)
  show ?case
  proof (cases "mark c")
    case True
    with Cons.prems have "partitionChunkIds cs (setAdd (id' c) w, wo) = (w', wo')" by simp
    from Cons.IH [OF this] True show ?thesis by (auto simp: set_setAdd)
  next
    case False
    with Cons.prems have "partitionChunkIds cs (w, setAdd (id' c) wo) = (w', wo')" by simp
    from Cons.IH [OF this] False show ?thesis by (auto simp: set_setAdd)
  qed
qed

lemma map_of_assignAll:
  "map_of (assignAll v ks m) i = (if i \<in> set ks then Some v else map_of m i)"
  by (induction ks arbitrary: m) (auto simp: update_conv')

lemma map_of_buildChunkMapping:
  "map_of (buildChunkMapping w wo) i =
     (if i \<in> set wo then Some 1 else if i \<in> set w then Some 0 else None)"
  by (simp add: buildChunkMapping_def map_of_assignAll)

lemma distinct_assignAll:
  "distinct (map fst m) \<Longrightarrow> distinct (map fst (assignAll v ks m))"
  by (induction ks arbitrary: m) (simp_all add: distinct_update)

lemma distinct_buildChunkMapping: "distinct (map fst (buildChunkMapping w wo))"
  by (simp add: buildChunkMapping_def distinct_assignAll)

text \<open>
  Claim C2, as amended. The resolver derived for a chunk has three cases, tried in this order.
  If no asynchronous chunk is marked, it is constant and returns the JSON string literal of
  \<open>noStringsLocaleName\<close>. Otherwise, if every asynchronous chunk is marked, it returns the JSON
  string literal of the given locale. Otherwise it throws on an empty locale, and on any other
  locale returns the text of an expression that indexes the JSON array of the locale and
  \<open>noStringsLocaleName\<close> by the entry, at the chunk-id token, of the JSON object of the mapping
  that the code builds from the ids of the marked and of the unmarked chunks: each id is a key
  once, the ids of unmarked chunks have the value 1 and the other ids of marked chunks the
  value 0.
\<close>

theorem jsonp_resolver_cases:
  "((\<forall>c\<in>set asyncChunks. \<not> mark c) \<longrightarrow>
      getJsonpFunction asyncChunks noStringsLocaleName locale chunkIdToken =
        Inr (quoteJSONString noStringsLocaleName)) \<and>
   ((\<exists>c\<in>set asyncChunks. mark c) \<and> (\<forall>c\<in>set asyncChunks. mark c) \<longrightarrow>
      getJsonpFunction asyncChunks noStringsLocaleName locale chunkIdToken =
        Inr (quoteJSONString locale)) \<and>
   ((\<exists>c\<in>set asyncChunks. mark c) \<and> (\<exists>c\<in>set asyncChunks. \<not> mark c) \<longrightarrow>
      (\<exists>idsWithStrings idsWithoutStrings.
         partitionChunkIds asyncChunks ([], []) = (idsWithStrings, idsWithoutStrings) \<and>
         set idsWithStrings = id' ` {c \<in> set asyncChunks. mark c} \<and>
         set idsWithoutStrings = id' ` {c \<in> set asyncChunks. \<not> mark c} \<and>
         distinct (map fst (buildChunkMapping idsWithStrings idsWithoutStrings)) \<and>
         (\<forall>i. map_of (buildChunkMapping idsWithStrings idsWithoutStrings) i =
            (if i \<in> id' ` {c \<in> set asyncChunks. \<not> mark c} then Some 1
             else if i \<in> id' ` {c \<in> set asyncChunks. mark c} then Some 0
             else None)) \<and>
         getJsonpFunction asyncChunks noStringsLocaleName [] chunkIdToken = Inl MissingLocaleName \<and>
         (locale \<noteq> [] \<longrightarrow>
            getJsonpFunction asyncChunks noStringsLocaleName locale chunkIdToken =
              Inr (''('' @ stringifyStringArray [locale, noStringsLocaleName] @ '')[''
                     @ stringifyChunkMapping (buildChunkMapping idsWithStrings idsWithoutStrings)
                     @ ''['' @ templateText chunkIdToken @ '']]''))))"
proof -
  obtain w wo where p: "partitionChunkIds asyncChunks ([], []) = (w, wo)"
    by (cases "partitionChunkIds asyncChunks ([], [])")
  from set_partitionChunkIds [OF p] have
    w: "set w = id' ` {c \<in> set asyncChunks. mark c}" and
    wo: "set wo = id' ` {c \<in> set asyncChunks. \<not> mark c}"
    by simp_all
  have wE: "w = [] \<longleftrightarrow> (\<forall>c\<in>set asyncChunks. \<not> mark c)"
    using w by (metis (mono_tags, lifting) image_is_empty set_empty Collect_empty_eq)
  have woE: "wo = [] \<longleftrightarrow> (\<forall>c\<in>set asyncChunks. mark c)"
    using wo by (metis (mono_tags, lifting) image_is_empty set_empty Collect_empty_eq)
  show ?thesis
  proof (intro conjI impI)
    assume "\<forall>c\<in>set asyncChunks. \<not> mark c"
    with wE p show "getJsonpFunction asyncChunks noStringsLocaleName locale chunkIdToken =
        Inr (quoteJSONString noStringsLocaleName)"
      by (simp add: getJsonpFunction_def)
  next
    assume "(\<exists>c\<in>set asyncChunks. mark c) \<and> (\<forall>c\<in>set asyncChunks. mark c)"
    with wE woE have "w \<noteq> []" "wo = []"
      by auto
    with p show "getJsonpFunction asyncChunks noStringsLocaleName locale chunkIdToken =
        Inr (quoteJSONString locale)"
      by (simp add: getJsonpFunction_def)
  next
    assume "(\<exists>c\<in>set asyncChunks. mark c) \<and> (\<exists>c\<in>set asyncChunks. \<not> mark c)"
    with wE woE have ne: "w \<noteq> []" "wo \<noteq> []"
      by auto
    with p have r: "getJsonpFunction asyncChunks noStringsLocaleName =
        mixedResolver (buildChunkMapping w wo) noStringsLocaleName"
      by (simp add: getJsonpFunction_def)
    have m: "\<forall>i. map_of (buildChunkMapping w wo) i =
            (if i \<in> id' ` {c \<in> set asyncChunks. \<not> mark c} then Some 1
             else if i \<in> id' ` {c \<in> set asyncChunks. mark c} then Some 0
             else None)"
      by (simp add: map_of_buildChunkMapping w wo)
    have e: "getJsonpFunction asyncChunks noStringsLocaleName [] chunkIdToken = Inl MissingLocaleName"
      by (simp add: r mixedResolver_def)
    have x: "locale \<noteq> [] \<longrightarrow>
            getJsonpFunction asyncChunks noStringsLocaleName locale chunkIdToken =
              Inr (''('' @ stringifyStringArray [locale, noStringsLocaleName] @ '')[''
                     @ stringifyChunkMapping (buildChunkMapping w wo)
                     @ ''['' @ templateText chunkIdToken @ '']]'')"
      by (simp add: r mixedResolver_def)
    show "\<exists>idsWithStrings idsWithoutStrings.
         partitionChunkIds asyncChunks ([], []) = (idsWithStrings, idsWithoutStrings) \<and>
         set idsWithStrings = id' ` {c \<in> set asyncChunks. mark c} \<and>
         set idsWithoutStrings = id' ` {c \<in> set asyncChunks. \<not> mark c} \<and>
         distinct (map fst (buildChunkMapping idsWithStrings idsWithoutStrings)) \<and>
         (\<forall>i. map_of (buildChunkMapping idsWithStrings idsWithoutStrings) i =
            (if i \<in> id' ` {c \<in> set asyncChunks. \<not> mark c} then Some 1
             else if i \<in> id' ` {c \<in> set asyncChunks. mark c} then Some 0
             else None)) \<and>
         getJsonpFunction asyncChunks noStringsLocaleName [] chunkIdToken = Inl MissingLocaleName \<and>
         (locale \<noteq> [] \<longrightarrow>
            getJsonpFunction asyncChunks noStringsLocaleName locale chunkIdToken =
              Inr (''('' @ stringifyStringArray [locale, noStringsLocaleName] @ '')[''
                     @ stringifyChunkMapping (buildChunkMapping idsWithStrings idsWithoutStrings)
                     @ ''['' @ templateText chunkIdToken @ '']]''))"
      by (intro exI [of _ w] exI [of _ wo] conjI p w wo distinct_buildChunkMapping m e x)
  qed
qed

text \<open>The constant resolver returns the name between quotation marks, not the name.\<close>

theorem jsonp_resolver_cases_counterexample:
  "getJsonpFunction [] ''none'' ''en-us'' (Some ''chunkId'') = Inr (CHR 0x22 # ''none'' @ [CHR 0x22]) \<and>
   getJsonpFunction [] ''none'' ''en-us'' (Some ''chunkId'') \<noteq> Inr ''none''"
  by (simp add: getJsonpFunction_def quoteJSONString_def quoteJSONChar_def quotemark_def
      backslash_def)

lemma example_resolver:
  "getJsonpFunction exampleChunks ''none'' ''en-us'' (Some ''chunkId'') =
     Inr (''(['' @ [CHR 0x22] @ ''en-us'' @ [CHR 0x22] @ '','' @ [CHR 0x22] @ ''none'' @ [CHR 0x22]
            @ ''])[{'' @ [CHR 0x22] @ ''0'' @ [CHR 0x22] @ '':1,'' @ [CHR 0x22] @ ''1'' @ [CHR 0x22]
            @ '':0,'' @ [CHR 0x22] @ ''main'' @ [CHR 0x22] @ '':0}[chunkId]]'')"
  by code_simp

theorem jsonp_resolver_cases_witness:
  "getJsonpFunction [] ''none'' ''en-us'' (Some ''chunkId'') = Inr (quoteJSONString ''none'') \<and>
   getJsonpFunction [\<lparr>id' = ''1'', mark = True\<rparr>] ''none'' ''en-us'' (Some ''chunkId'') =
     Inr (quoteJSONString ''en-us'') \<and>
   (\<exists>idsWithStrings idsWithoutStrings.
      partitionChunkIds exampleChunks ([], []) = (idsWithStrings, idsWithoutStrings) \<and>
      set idsWithStrings = id' ` {c \<in> set exampleChunks. mark c} \<and>
      set idsWithoutStrings = id' ` {c \<in> set exampleChunks. \<not> mark c} \<and>
      distinct (map fst (buildChunkMapping idsWithStrings idsWithoutStrings)) \<and>
      (\<forall>i. map_of (buildChunkMapping idsWithStrings idsWithoutStrings) i =
         (if i \<in> id' ` {c \<in> set exampleChunks. \<not> mark c} then Some 1
          else if i \<in> id' ` {c \<in> set exampleChunks. mark c} then Some 0
          else None)) \<and>
      getJsonpFunction exampleChunks ''none'' [] (Some ''chunkId'') = Inl MissingLocaleName \<and>
      (''en-us'' \<noteq> [] \<longrightarrow>
         getJsonpFunction exampleChunks ''none'' ''en-us'' (Some ''chunkId'') =
           Inr (''('' @ stringifyStringArray [''en-us'', ''none''] @ '')[''
                  @ stringifyChunkMapping (buildChunkMapping idsWithStrings idsWithoutStrings)
                  @ ''['' @ templateText (Some ''chunkId'') @ '']]''))) \<and>
   partitionChunkIds exampleChunks ([], []) = ([''1'', ''main''], [''0'']) \<and>
   buildChunkMapping [''1'', ''main''] [''0''] = [(''1'', 0), (''main'', 0), (''0'', 1)] \<and>
   getJsonpFunction exampleChunks ''none'' ''en-us'' (Some ''chunkId'') =
     Inr (''(['' @ [CHR 0x22] @ ''en-us'' @ [CHR 0x22] @ '','' @ [CHR 0x22] @ ''none'' @ [CHR 0x22]
            @ ''])[{'' @ [CHR 0x22] @ ''0'' @ [CHR 0x22] @ '':1,'' @ [CHR 0x22] @ ''1'' @ [CHR 0x22]
            @ '':0,'' @ [CHR 0x22] @ ''main'' @ [CHR 0x22] @ '':0}[chunkId]]'')"
proof -
  have h1: "\<forall>c\<in>set ([] :: Chunk list). \<not> mark c"
    by simp
  have h2: "(\<exists>c\<in>set [\<lparr>id' = ''1'', mark = True\<rparr>]. mark c) \<and>
      (\<forall>c\<in>set [\<lparr>id' = ''1'', mark = True\<rparr>]. mark c)"
    by simp
  have h3: "(\<exists>c\<in>set exampleChunks. mark c) \<and> (\<exists>c\<in>set exampleChunks. \<not> mark c)"
    by (simp add: exampleChunks_def)
  have p: "partitionChunkIds exampleChunks ([], []) = ([''1'', ''main''], [''0''])"
    by (simp add: exampleChunks_def setAdd_def)
  have b: "buildChunkMapping [''1'', ''main''] [''0''] = [(''1'', 0), (''main'', 0), (''0'', 1)]"
    by (simp add: buildChunkMapping_def)
  note c1 = jsonp_resolver_cases [THEN conjunct1, THEN mp, OF h1]
  note c2 = jsonp_resolver_cases [THEN conjunct2, THEN conjunct1, THEN mp, OF h2]
  note c3 = jsonp_resolver_cases [THEN conjunct2, THEN conjunct2, THEN mp, OF h3]
  show ?thesis
    by (intro conjI c1 c2 c3 p b example_resolver)
qed

subsection \<open>Parsing\<close>

lemma findMatch_matchAt:
  "findMatch i s = Some m \<Longrightarrow> \<exists>k. m_index m = i + k \<and> matchAt (i + k) (drop k s) = Some m"
proof (induction i s rule: findMatch.induct)
  case (1 i)
  then show ?case by simp
next
  case (2 i c cs)
  show ?case
  proof (cases "matchAt i (c # cs)")
    case None
    with 2 obtain k where "m_index m = Suc i + k" "matchAt (Suc i + k) (drop k cs) = Some m"
      by auto
    then show ?thesis
      by (intro exI [of _ "Suc k"]) simp
  next
    case (Some m')
    with 2 have "m' = m" by simp
    with Some matchAt_Some [OF Some] show ?thesis
      by (intro exI [of _ 0]) simp
  qed
qed

lemma exec_matchAt:
  "exec li src = Some m \<Longrightarrow> matchAt (m_index m) (drop (m_index m) src) = Some m"
  by (auto simp: exec_def add.commute split: if_splits dest!: findMatch_matchAt)

lemma matchAt_label:
  "matchAt i s = Some m \<Longrightarrow> m_elementLabel m \<in> {''A'', ''B'', ''C''}"
  by (auto simp: matchAt_def split: option.splits list.splits if_splits)

lemma exec_label:
  "exec li src = Some m \<Longrightarrow> m_elementLabel m \<in> {''A'', ''B'', ''C''}"
  by (blast dest: exec_matchAt matchAt_label)

lemma matchAt_None:
  "matchAt i s = None \<Longrightarrow> matchAt j s = None"
  by (auto simp: matchAt_def split: option.splits list.splits if_splits)

lemma findMatch_None:
  "findMatch i s = None \<Longrightarrow> findMatch j (drop k s) = None"
proof (induction i s arbitrary: j k rule: findMatch.induct)
  case (1 i)
  show ?case by simp
next
  case (2 i c cs)
  then have none: "matchAt i (c # cs) = None" and rest: "findMatch (Suc i) cs = None"
    by (auto split: option.splits)
  show ?case
  proof (cases k)
    case 0
    have "matchAt j (c # cs) = None"
      using none by (rule matchAt_None)
    moreover have "findMatch (Suc j) (drop 0 cs) = None"
      by (rule "2.IH" [OF none rest])
    ultimately show ?thesis using 0 by simp
  next
    case (Suc k')
    with "2.IH" [OF none rest, of j k'] show ?thesis by simp
  qed
qed

lemma exec_None:
  "exec 0 src = None \<Longrightarrow> exec re src = None"
  by (auto simp: exec_def dest: findMatch_None)

lemma example_no_placeholder: "exec 0 ''var x = 1;'' = None"
  by code_simp

lemma example_unknown_label_exec: "exec 0 (STRING_PLACEHOLDER_PREFIX @ ''_D_0'') = None"
  by code_simp

text \<open>
  Claim C8. When the expression has no match in a source, parsing gives no issue and a plan of
  one static element, the source itself, whatever \<^verbatim>\<open>lastIndex\<close> the expression held; and
  rendering that plan returns the source with the initial size, for every locale of the
  localized reconstructor and for the non-localized one.
\<close>

theorem no_placeholder_round_trip:
  assumes "exec 0 src = None"
  shows "parseStringToReconstructionSequence re getData src jsonp =
           Inr \<lparr>issues = [], reconstructionSeries = [Static src]\<rparr> \<and>
         (\<exists>r. reconstructLocalized [Static src] locales fm dl initialSize = Inr r \<and>
              l_issues r = [] \<and>
              (\<forall>l\<in>set locales.
                 map_of (l_result r) l = Some \<lparr>source = src, size_r = initialSize\<rparr>)) \<and>
         reconstructNonLocalized [Static src] initialSize ns =
           Inr \<lparr>n_result = \<lparr>source = src, size_r = initialSize\<rparr>, n_issues = []\<rparr>"
proof (intro conjI)
  from exec_None [OF assms]
  show "parseStringToReconstructionSequence re getData src jsonp =
      Inr \<lparr>issues = [], reconstructionSeries = [Static src]\<rparr>"
    by (simp add: parseStringToReconstructionSequence_def parseLoop.simps [of _ _ src])
next
  have loop: "\<And>acc. \<exists>r. reconstructLocalizedLocales [Static src] fm dl initialSize acc locales = Inr r \<and>
      l_issues r = l_issues acc \<and>
      (\<forall>l. map_of (l_result r) l =
         (if l \<in> set locales then Some \<lparr>source = src, size_r = initialSize\<rparr>
          else map_of (l_result acc) l))"
  proof (induction locales)
    case Nil
    show ?case by simp
  next
    case (Cons lc rest)
    let ?acc = "\<lparr>l_result = AList.update lc \<lparr>source = src, size_r = initialSize\<rparr> (l_result acc),
        l_issues = l_issues acc\<rparr>"
    from Cons [of ?acc] show ?case
      by (auto simp: update_conv')
  qed
  from loop [of "\<lparr>l_result = [], l_issues = []\<rparr>"]
  show "\<exists>r. reconstructLocalized [Static src] locales fm dl initialSize = Inr r \<and>
      l_issues r = [] \<and>
      (\<forall>l\<in>set locales. map_of (l_result r) l = Some \<lparr>source = src, size_r = initialSize\<rparr>)"
    by (auto simp: reconstructLocalized_def)
next
  show "reconstructNonLocalized [Static src] initialSize ns =
      Inr \<lparr>n_result = \<lparr>source = src, size_r = initialSize\<rparr>, n_issues = []\<rparr>"
    by (simp add: reconstructNonLocalized_def)
qed

theorem no_placeholder_round_trip_witness:
  "exec 0 ''var x = 1;'' = None \<and>
   (parseStringToReconstructionSequence 0 noData ''var x = 1;'' unsupportedFn =
      Inr \<lparr>issues = [], reconstructionSeries = [Static ''var x = 1;'']\<rparr> \<and>
    (\<exists>r. reconstructLocalized [Static ''var x = 1;''] [''en-us'', ''es-es''] True ''en-us'' 10 = Inr r \<and>
         l_issues r = [] \<and>
         (\<forall>l\<in>set [''en-us'', ''es-es''].
            map_of (l_result r) l = Some \<lparr>source = ''var x = 1;'', size_r = 10\<rparr>)) \<and>
    reconstructNonLocalized [Static ''var x = 1;''] 10 ''none'' =
      Inr \<lparr>n_result = \<lparr>source = ''var x = 1;'', size_r = 10\<rparr>, n_issues = []\<rparr>)"
  by (rule conjI [OF example_no_placeholder
        no_placeholder_round_trip [OF example_no_placeholder]])

subsection \<open>The parser in closed form\<close>

lemma allMatchesFrom_None: "exec re src = None \<Longrightarrow> allMatchesFrom re src = []"
  by (subst allMatchesFrom.simps) simp

lemma allMatchesFrom_Some:
  "exec re src = Some m \<Longrightarrow>
     allMatchesFrom re src = m # allMatchesFrom (m_index m + length (m_placeholder m)) src"
  by (subst allMatchesFrom.simps) simp

lemma allMatchesFrom_exec:
  "m \<in> set (allMatchesFrom re src) \<Longrightarrow> \<exists>li. exec li src = Some m"
proof (induction re src rule: allMatchesFrom.induct)
  case (1 re src)
  show ?case
  proof (cases "exec re src")
    case None
    with "1.prems" show ?thesis
      by (simp add: allMatchesFrom_None)
  next
    case (Some m')
    with "1.prems" have "m = m' \<or> m \<in> set (allMatchesFrom (m_index m' + length (m_placeholder m')) src)"
      by (simp add: allMatchesFrom_Some)
    with Some "1.IH" [OF Some] show ?thesis
      by blast
  qed
qed

lemma parseMatch_closed:
  assumes "m_elementLabel m \<in> {''A'', ''B'', ''C''}"
  shows "parseMatch g j src st m =
     (if tokenlessJsonp m then Inl TypeError
      else Inr \<lparr>p_issues = p_issues st @ missingPlaceholderIssues g [m],
                p_series = p_series st @
                  [Static (substring src (lastIndex st) (m_index m)), elementFor g j m],
                lastIndex = m_index m + length (m_placeholder m),
                regexLastIndex = m_index m + length (m_placeholder m)\<rparr>)"
  using assms
  by (auto simp: parseMatch_def Let_def tokenlessJsonp_def missingPlaceholderIssues_def
      missingSerial_def elementFor_def STRING_PLACEHOLDER_LABEL_def
      LOCALE_NAME_PLACEHOLDER_LABEL_def JSONP_PLACEHOLDER_LABEL_def split: option.splits)

lemma missingPlaceholderIssues_Cons:
  "missingPlaceholderIssues g (m # ms) =
     missingPlaceholderIssues g [m] @ missingPlaceholderIssues g ms"
  by (simp add: missingPlaceholderIssues_def)

lemma parseLoop_closed:
  "(case parseLoop g j src st of
      Inl e \<Rightarrow> Inl e
    | Inr st' \<Rightarrow>
        Inr \<lparr>issues = p_issues st',
             reconstructionSeries = p_series st' @ [Static (drop (lastIndex st') src)]\<rparr>) =
   (if \<exists>m\<in>set (allMatchesFrom (regexLastIndex st) src). tokenlessJsonp m then Inl TypeError
    else Inr \<lparr>issues =
                p_issues st @ missingPlaceholderIssues g (allMatchesFrom (regexLastIndex st) src),
              reconstructionSeries =
                p_series st @ planFrom g j src (lastIndex st)
                  (allMatchesFrom (regexLastIndex st) src)\<rparr>)"
proof (induction g j src st rule: parseLoop.induct)
  case (1 g j src st)
  show ?case
  proof (cases "exec (regexLastIndex st) src")
    case None
    then show ?thesis
      by (subst parseLoop.simps) (simp add: allMatchesFrom_None missingPlaceholderIssues_def)
  next
    case (Some m)
    note step = parseMatch_closed [OF exec_label [OF Some], of g j src st]
    show ?thesis
    proof (cases "tokenlessJsonp m")
      case True
      with Some step show ?thesis
        by (subst parseLoop.simps) (simp add: allMatchesFrom_Some)
    next
      case False
      let ?st = "\<lparr>p_issues = p_issues st @ missingPlaceholderIssues g [m],
                p_series = p_series st @
                  [Static (substring src (lastIndex st) (m_index m)), elementFor g j m],
                lastIndex = m_index m + length (m_placeholder m),
                regexLastIndex = m_index m + length (m_placeholder m)\<rparr>"
      from False step have s: "parseMatch g j src st m = Inr ?st"
        by simp
      from Some s have l: "parseLoop g j src st = parseLoop g j src ?st"
        by (subst parseLoop.simps) simp
      note c = missingPlaceholderIssues_Cons
        [of g m "allMatchesFrom (m_index m + length (m_placeholder m)) src"]
      from "1.IH" [OF Some s] False show ?thesis
        unfolding l allMatchesFrom_Some [OF Some]
        by (simp add: c)
    qed
  qed
qed

lemma parse_closed:
  "parseStringToReconstructionSequence re g src j =
     (if \<exists>m\<in>set (allMatchesFrom re src). tokenlessJsonp m then Inl TypeError
      else Inr \<lparr>issues = missingPlaceholderIssues g (allMatchesFrom re src),
                reconstructionSeries = planFrom g j src 0 (allMatchesFrom re src)\<rparr>)"
  using parseLoop_closed [where g = g and j = j and src = src
      and st = "\<lparr>p_issues = [], p_series = [], lastIndex = 0, regexLastIndex = re\<rparr>"]
  by (simp add: parseStringToReconstructionSequence_def)








subsection \<open>Placeholders without an entry in the string table\<close>







subsection \<open>Labels that the expression does not admit\<close>

lemma unknown_label_matchAt:
  "lab \<notin> {CHR ''A'', CHR ''B'', CHR ''C''} \<Longrightarrow>
     matchAt i (STRING_PLACEHOLDER_PREFIX @ ''_'' @ lab # rest) = None"
proof -
  assume "lab \<notin> {CHR ''A'', CHR ''B'', CHR ''C''}"
  moreover have "stripPrefix (STRING_PLACEHOLDER_PREFIX @ ''_'')
      (STRING_PLACEHOLDER_PREFIX @ ''_'' @ lab # rest) = Some (lab # rest)"
    by (simp add: STRING_PLACEHOLDER_PREFIX_def)
  ultimately show "matchAt i (STRING_PLACEHOLDER_PREFIX @ ''_'' @ lab # rest) = None"
    by (simp add: matchAt_def)
qed

lemma unknown_label_unmatched:
  assumes "lab \<notin> {CHR ''A'', CHR ''B'', CHR ''C''}"
    and "m \<in> set (allMatchesFrom re (a @ STRING_PLACEHOLDER_PREFIX @ ''_'' @ lab # rest))"
  shows "m_index m \<noteq> length a \<and> m_elementLabel m \<in> {''A'', ''B'', ''C''}"
proof -
  let ?src = "a @ STRING_PLACEHOLDER_PREFIX @ ''_'' @ lab # rest"
  from allMatchesFrom_exec [OF assms(2)] obtain li where e: "exec li ?src = Some m" ..
  note at = exec_matchAt [OF e]
  have "m_index m \<noteq> length a"
  proof
    assume "m_index m = length a"
    with at have "matchAt (length a) (STRING_PLACEHOLDER_PREFIX @ ''_'' @ lab # rest) = Some m"
      by simp
    with unknown_label_matchAt [OF assms(1), of "length a" rest] show False
      by simp
  qed
  with exec_label [OF e] show ?thesis
    by simp
qed

lemma substring_whole: "li \<le> length src \<Longrightarrow> substring src li (length src) = drop li src"
  by (simp add: substring_def max_def min_def)

lemma unmatched_text_static:
  "li \<le> i \<Longrightarrow> i + n \<le> length src \<Longrightarrow>
   (\<forall>m\<in>set (allMatchesFrom k src).
      m_index m + length (m_placeholder m) \<le> i \<or> i + n \<le> m_index m) \<Longrightarrow>
   \<exists>lo hi. lo \<le> i \<and> i + n \<le> hi \<and> hi \<le> length src \<and>
     Static (substring src lo hi) \<in> set (planFrom g j src li (allMatchesFrom k src))"
proof (induction k src arbitrary: li rule: allMatchesFrom.induct)
  case (1 k src)
  show ?case
  proof (cases "exec k src")
    case None
    from "1.prems"(1,2) have "li \<le> length src"
      by simp
    then have "Static (substring src li (length src)) \<in> set (planFrom g j src li (allMatchesFrom k src))"
      by (simp add: allMatchesFrom_None [OF None] substring_whole)
    with "1.prems"(1,2) show ?thesis
      by blast
  next
    case (Some m)
    note ms = allMatchesFrom_Some [OF Some]
    from "1.prems"(3) have
      m: "m_index m + length (m_placeholder m) \<le> i \<or> i + n \<le> m_index m" and
      rest: "\<forall>m'\<in>set (allMatchesFrom (m_index m + length (m_placeholder m)) src).
          m_index m' + length (m_placeholder m') \<le> i \<or> i + n \<le> m_index m'"
      by (simp_all add: ms)
    from m show ?thesis
    proof
      assume before: "m_index m + length (m_placeholder m) \<le> i"
      from "1.IH" [OF Some before "1.prems"(2) rest]
      obtain lo hi where "lo \<le> i" "i + n \<le> hi" "hi \<le> length src"
        "Static (substring src lo hi)
           \<in> set (planFrom g j src (m_index m + length (m_placeholder m))
                    (allMatchesFrom (m_index m + length (m_placeholder m)) src))"
        by blast
      then show ?thesis
        unfolding ms by (intro exI [of _ lo] exI [of _ hi]) simp
    next
      assume after: "i + n \<le> m_index m"
      from exec_Some [OF Some] have "m_index m \<le> length src"
        by simp
      with after "1.prems"(1) show ?thesis
        unfolding ms by (intro exI [of _ li] exI [of _ "m_index m"]) simp
    qed
  qed
qed

lemma substring_cover:
  "lo \<le> length a \<Longrightarrow> length a + length t \<le> hi \<Longrightarrow>
     substring (a @ t @ rest) lo hi = drop lo a @ t @ take (hi - (length a + length t)) rest"
  by (simp add: substring_def max_def min_def)

text \<open>
  Claim C7, as amended. The placeholder expression admits the labels A, B and C only. On every
  source the parser either throws the error of a call on \<^verbatim>\<open>undefined\<close> (a placeholder of
  label C without a token) or returns the issues of the matches of label A with a missing serial
  number and the plan of the matches; it never throws the error of an unexpected label. Where
  the prefix is followed by an underscore and a label other than A, B and C, no match starts,
  and every match has one of the three labels: no element and no issue is made for that place.
  If the source has no match at all, the parser returns no issue and the source as one static
  element. If no match is a placeholder of label C without a token and no match overlaps the
  prefix, the underscore and the label, the parser returns a plan with a static element that
  is a part of the source holding that text verbatim.
\<close>

theorem unknown_label_is_not_a_placeholder:
  "parseStringToReconstructionSequence re getData src jsonp \<noteq> Inl (UnexpectedLabel l) \<and>
   (parseStringToReconstructionSequence re getData src jsonp = Inl TypeError \<or>
    parseStringToReconstructionSequence re getData src jsonp =
      Inr \<lparr>issues =
             map (\<lambda>m. ''Missing placeholder '' @ m_placeholder m)
               (filter (\<lambda>m. m_elementLabel m = ''A'' \<and> getData (m_placeholderSerialNumber m) = None)
                  (allMatchesFrom re src)),
           reconstructionSeries = planFrom getData jsonp src 0 (allMatchesFrom re src)\<rparr>) \<and>
   (lab \<notin> {CHR ''A'', CHR ''B'', CHR ''C''} \<and>
    src = a @ STRING_PLACEHOLDER_PREFIX @ ''_'' @ lab # rest \<longrightarrow>
      (\<forall>m\<in>set (allMatchesFrom re src).
         m_index m \<noteq> length a \<and> m_elementLabel m \<in> {''A'', ''B'', ''C''}) \<and>
      (exec 0 src = None \<longrightarrow>
         parseStringToReconstructionSequence re getData src jsonp =
           Inr \<lparr>issues = [], reconstructionSeries = [Static src]\<rparr>) \<and>
      ((\<forall>m\<in>set (allMatchesFrom re src).
          \<not> (m_elementLabel m = ''C'' \<and> m_token m = None) \<and>
          (m_index m + length (m_placeholder m) \<le> length a \<or>
           length a + length (STRING_PLACEHOLDER_PREFIX @ ''_'' @ [lab]) \<le> m_index m)) \<longrightarrow>
         (\<exists>res lo hi.
            parseStringToReconstructionSequence re getData src jsonp = Inr res \<and>
            lo \<le> length a \<and>
            length a + length (STRING_PLACEHOLDER_PREFIX @ ''_'' @ [lab]) \<le> hi \<and>
            hi \<le> length src \<and>
            Static (substring src lo hi) \<in> set (reconstructionSeries res) \<and>
            substring src lo hi =
              drop lo a @ (STRING_PLACEHOLDER_PREFIX @ ''_'' @ [lab])
                @ take (hi - (length a + length (STRING_PLACEHOLDER_PREFIX @ ''_'' @ [lab]))) rest)))"
proof (intro conjI impI)
  show "parseStringToReconstructionSequence re getData src jsonp \<noteq> Inl (UnexpectedLabel l)"
    by (simp add: parse_closed)
next
  show "parseStringToReconstructionSequence re getData src jsonp = Inl TypeError \<or>
    parseStringToReconstructionSequence re getData src jsonp =
      Inr \<lparr>issues =
             map (\<lambda>m. ''Missing placeholder '' @ m_placeholder m)
               (filter (\<lambda>m. m_elementLabel m = ''A'' \<and> getData (m_placeholderSerialNumber m) = None)
                  (allMatchesFrom re src)),
           reconstructionSeries = planFrom getData jsonp src 0 (allMatchesFrom re src)\<rparr>"
    by (simp add: parse_closed missingPlaceholderIssues_def missingSerial_def [abs_def])
next
  assume "lab \<notin> {CHR ''A'', CHR ''B'', CHR ''C''} \<and>
    src = a @ STRING_PLACEHOLDER_PREFIX @ ''_'' @ lab # rest"
  then show "\<forall>m\<in>set (allMatchesFrom re src).
      m_index m \<noteq> length a \<and> m_elementLabel m \<in> {''A'', ''B'', ''C''}"
    using unknown_label_unmatched [of lab _ re a rest] by blast
next
  assume "exec 0 src = None"
  from exec_None [OF this] have "allMatchesFrom re src = []"
    by (rule allMatchesFrom_None)
  then show "parseStringToReconstructionSequence re getData src jsonp =
      Inr \<lparr>issues = [], reconstructionSeries = [Static src]\<rparr>"
    by (simp add: parse_closed missingPlaceholderIssues_def)
next
  let ?t = "STRING_PLACEHOLDER_PREFIX @ ''_'' @ [lab]"
  let ?ms = "allMatchesFrom re src"
  let ?res = "\<lparr>issues = missingPlaceholderIssues getData ?ms,
      reconstructionSeries = planFrom getData jsonp src 0 ?ms\<rparr>"
  assume h: "lab \<notin> {CHR ''A'', CHR ''B'', CHR ''C''} \<and>
    src = a @ STRING_PLACEHOLDER_PREFIX @ ''_'' @ lab # rest"
  assume ms: "\<forall>m\<in>set ?ms.
      \<not> (m_elementLabel m = ''C'' \<and> m_token m = None) \<and>
      (m_index m + length (m_placeholder m) \<le> length a \<or> length a + length ?t \<le> m_index m)"
  from h have src: "src = a @ ?t @ rest"
    by simp
  from ms have "\<not> (\<exists>m\<in>set ?ms. tokenlessJsonp m)"
    by (simp add: tokenlessJsonp_def)
  then have ret: "parseStringToReconstructionSequence re getData src jsonp = Inr ?res"
    by (simp add: parse_closed)
  from src have inside: "length a + length ?t \<le> length src"
    by simp
  from ms have free: "\<forall>m\<in>set ?ms.
      m_index m + length (m_placeholder m) \<le> length a \<or> length a + length ?t \<le> m_index m"
    by blast
  from unmatched_text_static [OF le0 inside free, of getData jsonp]
  obtain lo hi where lo: "lo \<le> length a" and hi: "length a + length ?t \<le> hi"
    and hi': "hi \<le> length src"
    and st: "Static (substring src lo hi) \<in> set (planFrom getData jsonp src 0 ?ms)"
    by blast
  have cover: "substring src lo hi = drop lo a @ ?t @ take (hi - (length a + length ?t)) rest"
    unfolding src by (rule substring_cover [OF lo hi])
  from st have st': "Static (substring src lo hi) \<in> set (reconstructionSeries ?res)"
    by simp
  show "\<exists>res lo hi.
      parseStringToReconstructionSequence re getData src jsonp = Inr res \<and>
      lo \<le> length a \<and> length a + length ?t \<le> hi \<and> hi \<le> length src \<and>
      Static (substring src lo hi) \<in> set (reconstructionSeries res) \<and>
      substring src lo hi = drop lo a @ ?t @ take (hi - (length a + length ?t)) rest"
    by (intro exI [of _ ?res] exI [of _ lo] exI [of _ hi] conjI ret lo hi hi' st' cover)
qed

text \<open>A source that is the prefix followed by the label D parses to one static element.\<close>

theorem unknown_label_is_not_a_placeholder_counterexample:
  "parseStringToReconstructionSequence 0 noData (STRING_PLACEHOLDER_PREFIX @ ''_D_0'') unsupportedFn =
     Inr \<lparr>issues = [], reconstructionSeries = [Static (STRING_PLACEHOLDER_PREFIX @ ''_D_0'')]\<rparr>"
  by (simp add: parseStringToReconstructionSequence_def
      parseLoop.simps [of _ _ "STRING_PLACEHOLDER_PREFIX @ ''_D_0''"] example_unknown_label_exec)

lemma example_unknown_matches: "allMatchesFrom 0 exampleUnknownSource = [exampleLaterMatch]"
  by code_simp

lemma example_unknown_facts:
  "substring exampleUnknownSource 0 (m_index exampleLaterMatch) =
     ''x'' @ STRING_PLACEHOLDER_PREFIX @ ''_D_0''"
  "drop (m_index exampleLaterMatch + length examplePlaceholder) exampleUnknownSource = []"
  "m_placeholder exampleLaterMatch = examplePlaceholder"
  by code_simp+

lemma example_unknown_parse:
  "parseStringToReconstructionSequence 0 noData exampleUnknownSource unsupportedFn =
     Inr \<lparr>issues = [''Missing placeholder '' @ examplePlaceholder],
          reconstructionSeries =
            [Static (''x'' @ STRING_PLACEHOLDER_PREFIX @ ''_D_0''), Static examplePlaceholder,
             Static []]\<rparr>"
proof -
  have t: "\<not> tokenlessJsonp exampleLaterMatch"
    by (simp add: tokenlessJsonp_def exampleLaterMatch_def)
  have s: "missingSerial noData exampleLaterMatch"
    by (simp add: missingSerial_def noData_def exampleLaterMatch_def)
  have e: "elementFor noData unsupportedFn exampleLaterMatch = Static examplePlaceholder"
    by (simp add: elementFor_def noData_def exampleLaterMatch_def)
  show ?thesis
    by (simp add: parse_closed example_unknown_matches t s e missingPlaceholderIssues_def
        example_unknown_facts)
qed

theorem unknown_label_is_not_a_placeholder_witness:
  "CHR ''D'' \<notin> {CHR ''A'', CHR ''B'', CHR ''C''} \<and>
   exampleUnknownSource =
     ''x'' @ STRING_PLACEHOLDER_PREFIX @ ''_'' @ CHR ''D'' # (''_0'' @ examplePlaceholder) \<and>
   allMatchesFrom 0 exampleUnknownSource = [exampleLaterMatch] \<and>
   m_index exampleLaterMatch = 59 \<and>
   parseStringToReconstructionSequence 0 noData exampleUnknownSource unsupportedFn
     \<noteq> Inl (UnexpectedLabel ''D'') \<and>
   parseStringToReconstructionSequence 0 noData exampleUnknownSource unsupportedFn =
     Inr \<lparr>issues = [''Missing placeholder '' @ examplePlaceholder],
          reconstructionSeries =
            [Static (''x'' @ STRING_PLACEHOLDER_PREFIX @ ''_D_0''), Static examplePlaceholder,
             Static []]\<rparr> \<and>
   (\<exists>res lo hi.
      parseStringToReconstructionSequence 0 noData exampleUnknownSource unsupportedFn = Inr res \<and>
      lo \<le> length ''x'' \<and>
      length ''x'' + length (STRING_PLACEHOLDER_PREFIX @ ''_'' @ [CHR ''D'']) \<le> hi \<and>
      hi \<le> length exampleUnknownSource \<and>
      Static (substring exampleUnknownSource lo hi) \<in> set (reconstructionSeries res) \<and>
      substring exampleUnknownSource lo hi =
        drop lo ''x'' @ (STRING_PLACEHOLDER_PREFIX @ ''_'' @ [CHR ''D''])
          @ take (hi - (length ''x'' + length (STRING_PLACEHOLDER_PREFIX @ ''_'' @ [CHR ''D''])))
              (''_0'' @ examplePlaceholder)) \<and>
   exec 0 (STRING_PLACEHOLDER_PREFIX @ ''_D_0'') = None \<and>
   parseStringToReconstructionSequence 0 noData (STRING_PLACEHOLDER_PREFIX @ ''_D_0'') unsupportedFn =
     Inr \<lparr>issues = [], reconstructionSeries = [Static (STRING_PLACEHOLDER_PREFIX @ ''_D_0'')]\<rparr>"
proof -
  have d: "CHR ''D'' \<notin> {CHR ''A'', CHR ''B'', CHR ''C''}"
    by simp
  have s1: "exampleUnknownSource =
      ''x'' @ STRING_PLACEHOLDER_PREFIX @ ''_'' @ CHR ''D'' # (''_0'' @ examplePlaceholder)"
    by (simp add: exampleUnknownSource_def)
  have s2: "STRING_PLACEHOLDER_PREFIX @ ''_D_0'' =
      [] @ STRING_PLACEHOLDER_PREFIX @ ''_'' @ CHR ''D'' # ''_0''"
    by simp
  note ms = example_unknown_matches
  have i: "m_index exampleLaterMatch = 59"
    by (simp add: exampleLaterMatch_def)
  have free: "\<forall>m\<in>set (allMatchesFrom 0 exampleUnknownSource).
      \<not> (m_elementLabel m = ''C'' \<and> m_token m = None) \<and>
      (m_index m + length (m_placeholder m) \<le> length ''x'' \<or>
       length ''x'' + length (STRING_PLACEHOLDER_PREFIX @ ''_'' @ [CHR ''D'']) \<le> m_index m)"
    by (simp add: ms exampleLaterMatch_def STRING_PLACEHOLDER_PREFIX_def)
  note t1 = unknown_label_is_not_a_placeholder [where re = 0 and getData = noData
      and src = exampleUnknownSource and jsonp = unsupportedFn and l = "''D''"
      and lab = "CHR ''D''" and a = "''x''" and rest = "''_0'' @ examplePlaceholder"]
  note t2 = unknown_label_is_not_a_placeholder [where re = 0 and getData = noData
      and src = "STRING_PLACEHOLDER_PREFIX @ ''_D_0''" and jsonp = unsupportedFn
      and lab = "CHR ''D''" and a = "[]" and rest = "''_0''"]
  note never = t1 [THEN conjunct1]
  note static = t1 [THEN conjunct2, THEN conjunct2, THEN mp, OF conjI [OF d s1],
      THEN conjunct2, THEN conjunct2, THEN mp, OF free]
  note whole = t2 [THEN conjunct2, THEN conjunct2, THEN mp, OF conjI [OF d s2],
      THEN conjunct2, THEN conjunct1, THEN mp, OF example_unknown_label_exec]
  show ?thesis
    by (intro conjI d s1 ms i never example_unknown_parse static example_unknown_label_exec whole)
qed

end
